theory Spec2Isabelle
  imports Main
begin

section \<open>Exceptions\<close>

text \<open>
  Every exception the handlers of \<^verbatim>\<open>RequestGateway.py\<close> can meet is a value.
  \<open>ClientError code text\<close> is botocore's \<^verbatim>\<open>ClientError\<close> with
  \<^verbatim>\<open>e.response['Error']['Code'] = code\<close>; the other constructors carry the text
  that \<^verbatim>\<open>'%s' % e\<close> prints.  \<open>AddressNotFound\<close> and \<open>SubnetNotFound\<close> are the two
  error kinds that the design document names for provisioning; no statement of the source
  raises them.
\<close>

datatype error =
    ClientError string string
  | KeyError string
  | IndexError string
  | TypeError string
  | ValueError string
  | OverflowError string
  | ParamValidationError string
  | WaiterError string
  | OtherError string
  | AddressNotFound
  | SubnetNotFound

fun error_str :: "error \<Rightarrow> string" where
  "error_str (ClientError code text) = text"
| "error_str (KeyError k) = [CHR 0x27] @ k @ [CHR 0x27]"
| "error_str (IndexError text) = text"
| "error_str (TypeError text) = text"
| "error_str (ValueError text) = text"
| "error_str (OverflowError text) = text"
| "error_str (ParamValidationError text) = text"
| "error_str (WaiterError text) = text"
| "error_str (OtherError text) = text"
| "error_str AddressNotFound = ''AddressNotFound''"
| "error_str SubnetNotFound = ''SubnetNotFound''"

section \<open>Python's \<^verbatim>\<open>datetime\<close> and \<^verbatim>\<open>timedelta\<close>, as far as the program uses them\<close>

text \<open>
  A \<^verbatim>\<open>timedelta\<close> is a number of microseconds.  A \<^verbatim>\<open>datetime\<close> keeps its calendar
  fields, as Python does; \<open>dt_tzinfo\<close> is \<open>None\<close> for a naive value and the UTC offset
  (in microseconds) of a fixed-offset zone for an aware one.
\<close>

type_synonym timedelta = int

definition minutes :: "int \<Rightarrow> timedelta" where
  "minutes n = n * 60000000"

record datetime =
  dt_year :: int
  dt_month :: int
  dt_day :: int
  dt_hour :: int
  dt_minute :: int
  dt_second :: int
  dt_microsecond :: int
  dt_tzinfo :: "int option"

definition is_leap :: "int \<Rightarrow> bool" where
  "is_leap y = (y mod 4 = 0 \<and> (y mod 100 \<noteq> 0 \<or> y mod 400 = 0))"

definition days_before_year :: "int \<Rightarrow> int" where
  "days_before_year y = (y - 1) * 365 + (y - 1) div 4 - (y - 1) div 100 + (y - 1) div 400"

definition DAYS_IN_MONTH :: "int list" where
  "DAYS_IN_MONTH = [0, 31, 28, 31, 30, 31, 30, 31, 31, 30, 31, 30, 31]"

definition DAYS_BEFORE_MONTH :: "int list" where
  "DAYS_BEFORE_MONTH = [0, 0, 31, 59, 90, 120, 151, 181, 212, 243, 273, 304, 334]"

definition days_in_month :: "int \<Rightarrow> int \<Rightarrow> int" where
  "days_in_month y m = (if m = 2 \<and> is_leap y then 29 else DAYS_IN_MONTH ! nat m)"

definition days_before_month :: "int \<Rightarrow> int \<Rightarrow> int" where
  "days_before_month y m = DAYS_BEFORE_MONTH ! nat m + (if m > 2 \<and> is_leap y then 1 else 0)"

definition ymd2ord :: "int \<Rightarrow> int \<Rightarrow> int \<Rightarrow> int" where
  "ymd2ord y m d = days_before_year y + days_before_month y m + d"

definition ord2ymd :: "int \<Rightarrow> int \<times> int \<times> int" where
  "ord2ymd ordinal =
     (let n = ordinal - 1;
          n400 = n div 146097; n = n mod 146097;
          n100 = n div 36524; n = n mod 36524;
          n4 = n div 1461; n = n mod 1461;
          n1 = n div 365; n = n mod 365;
          y = n400 * 400 + 1 + n100 * 100 + n4 * 4 + n1
      in if n1 = 4 \<or> n100 = 4 then (y - 1, 12, 31)
         else
           let leapyear = (n1 = 3 \<and> (n4 \<noteq> 24 \<or> n100 = 3));
               m = (n + 50) div 32;
               preceding = DAYS_BEFORE_MONTH ! nat m + (if m > 2 \<and> leapyear then 1 else 0)
           in if preceding > n
              then (y, m - 1,
                    n - (preceding - (DAYS_IN_MONTH ! nat (m - 1)
                                      + (if m - 1 = 2 \<and> leapyear then 1 else 0))) + 1)
              else (y, m, n - preceding + 1))"

text \<open>The wall-clock reading of a datetime, in microseconds since 0001-01-01 00:00:00.\<close>

definition wall_micro :: "datetime \<Rightarrow> int" where
  "wall_micro d =
     (ymd2ord (dt_year d) (dt_month d) (dt_day d) - 1) * 86400000000
     + (dt_hour d * 3600 + dt_minute d * 60 + dt_second d) * 1000000
     + dt_microsecond d"

definition from_micro :: "int \<Rightarrow> int option \<Rightarrow> datetime" where
  "from_micro t tz =
     (let r = t mod 86400000000 in
      case ord2ymd (t div 86400000000 + 1) of (y, m, d) \<Rightarrow>
        \<lparr>dt_year = y, dt_month = m, dt_day = d,
         dt_hour = r div 3600000000, dt_minute = r div 60000000 mod 60,
         dt_second = r div 1000000 mod 60, dt_microsecond = r mod 1000000,
         dt_tzinfo = tz\<rparr>)"

text \<open>
  \<^verbatim>\<open>a - b\<close> on two datetimes: the difference of the wall-clock readings when both
  have the same zone, corrected by the offsets when both are aware, and a
  \<^verbatim>\<open>TypeError\<close> when exactly one of them is naive.
\<close>

definition dt_sub :: "datetime \<Rightarrow> datetime \<Rightarrow> error + timedelta" where
  "dt_sub a b =
     (let base = wall_micro a - wall_micro b in
      if dt_tzinfo a = dt_tzinfo b then Inr base
      else case (dt_tzinfo a, dt_tzinfo b) of
             (Some myoff, Some otoff) \<Rightarrow> Inr (base + otoff - myoff)
           | _ \<Rightarrow> Inl (TypeError ''can't subtract offset-naive and offset-aware datetimes''))"

text \<open>The datetimes that the constructor \<^verbatim>\<open>datetime(y, m, d, hh, mm, ss, us, tz)\<close> accepts.\<close>

definition valid_datetime :: "datetime \<Rightarrow> bool" where
  "valid_datetime d =
     (1 \<le> dt_year d \<and> dt_year d \<le> 9999 \<and> 1 \<le> dt_month d \<and> dt_month d \<le> 12
      \<and> 1 \<le> dt_day d \<and> dt_day d \<le> days_in_month (dt_year d) (dt_month d)
      \<and> 0 \<le> dt_hour d \<and> dt_hour d \<le> 23 \<and> 0 \<le> dt_minute d \<and> dt_minute d \<le> 59
      \<and> 0 \<le> dt_second d \<and> dt_second d \<le> 59
      \<and> 0 \<le> dt_microsecond d \<and> dt_microsecond d \<le> 999999)"

subsection \<open>\<^verbatim>\<open>'%s' % datetime\<close>: the text written into the LastRequested tag\<close>

definition digit_char :: "nat \<Rightarrow> char" where
  "digit_char n = char_of (48 + n)"

fun fixed_digits :: "nat \<Rightarrow> nat \<Rightarrow> string" where
  "fixed_digits 0 n = []"
| "fixed_digits (Suc w) n = fixed_digits w (n div 10) @ [digit_char (n mod 10)]"

function dec :: "nat \<Rightarrow> string" where
  "dec n = (if n < 10 then [digit_char n] else dec (n div 10) @ [digit_char (n mod 10)])"
  by pat_completeness auto
termination
  by (relation "measure id") auto

text \<open>\<^verbatim>\<open>'%0wd' % n\<close> for a non-negative \<open>n\<close>: at least \<open>w\<close> digits, zero-padded.\<close>

definition zpad :: "nat \<Rightarrow> int \<Rightarrow> string" where
  "zpad w n = (if nat n < 10 ^ w then fixed_digits w (nat n) else dec (nat n))"

definition str_offset :: "int \<Rightarrow> string" where
  "str_offset off =
     (let a = \<bar>off\<bar>; hh = a div 3600000000; mm = a div 60000000 mod 60;
          ss = a div 1000000 mod 60; us = a mod 1000000
      in (if off < 0 then ''-'' else ''+'') @ zpad 2 hh @ '':'' @ zpad 2 mm
         @ (if ss \<noteq> 0 \<or> us \<noteq> 0 then '':'' @ zpad 2 ss else [])
         @ (if us \<noteq> 0 then ''.'' @ zpad 6 us else []))"

definition str_datetime :: "datetime \<Rightarrow> string" where
  "str_datetime d =
     zpad 4 (dt_year d) @ ''-'' @ zpad 2 (dt_month d) @ ''-'' @ zpad 2 (dt_day d) @ '' ''
     @ zpad 2 (dt_hour d) @ '':'' @ zpad 2 (dt_minute d) @ '':'' @ zpad 2 (dt_second d)
     @ (if dt_microsecond d \<noteq> 0 then ''.'' @ zpad 6 (dt_microsecond d) else [])
     @ (case dt_tzinfo d of None \<Rightarrow> [] | Some off \<Rightarrow> str_offset off)"

subsection \<open>\<^verbatim>\<open>dateutil.parser.isoparse\<close>: the reader of the LastRequested tag\<close>

text \<open>
  The parser follows the library's own steps.  The text is taken as ASCII bytes.  The
  date is read in its common form (\<^verbatim>\<open>YYYY\<close>, \<^verbatim>\<open>YYYY-MM\<close>, \<^verbatim>\<open>YYYY-MM-DD\<close>,
  \<^verbatim>\<open>YYYYMMDD\<close>) and, when that raises \<^verbatim>\<open>ValueError\<close>, in its uncommon form (week
  dates \<^verbatim>\<open>YYYY-Www-D\<close>, ordinal dates \<^verbatim>\<open>YYYY-DDD\<close>); then comes one separator
  character of any kind, then the time components in a loop over hour, minute, second,
  fraction and zone.  Numbers are read by \<^verbatim>\<open>int()\<close>, which allows blanks around the
  number, a sign, and single underscores between digits.
\<close>

definition is_digit :: "char \<Rightarrow> bool" where
  "is_digit c = (c \<in> set ''0123456789'')"

definition digit_val :: "char \<Rightarrow> int" where
  "digit_val c = int (of_char c) - 48"

definition is_space :: "char \<Rightarrow> bool" where
  "is_space c = (c \<in> set [CHR 0x20, CHR 0x09, CHR 0x0A, CHR 0x0B, CHR 0x0C, CHR 0x0D])"

text \<open>\<^verbatim>\<open>repr\<close> of a bytes object, which the message of \<^verbatim>\<open>int()\<close> shows.\<close>

definition hex_digit :: "nat \<Rightarrow> char" where
  "hex_digit n = ''0123456789abcdef'' ! n"

definition escape_byte :: "char \<Rightarrow> char \<Rightarrow> string" where
  "escape_byte quote c =
     (if c = quote \<or> c = CHR 0x5C then [CHR 0x5C, c]
      else if c = CHR 0x09 then [CHR 0x5C, CHR ''t'']
      else if c = CHR 0x0A then [CHR 0x5C, CHR ''n'']
      else if c = CHR 0x0D then [CHR 0x5C, CHR ''r'']
      else if (of_char c :: nat) < 32 \<or> (of_char c :: nat) \<ge> 127
      then [CHR 0x5C, CHR ''x'', hex_digit (of_char c div 16), hex_digit (of_char c mod 16)]
      else [c])"

definition bytes_repr :: "string \<Rightarrow> string" where
  "bytes_repr s =
     (let quote = (if CHR 0x27 \<in> set s \<and> CHR 0x22 \<notin> set s then CHR 0x22 else CHR 0x27)
      in ''b'' @ [quote] @ concat (map (escape_byte quote) s) @ [quote])"

text \<open>Digits with single underscores between them, as \<^verbatim>\<open>int()\<close> accepts them.\<close>

fun well_formed_digits :: "string \<Rightarrow> bool" where
  "well_formed_digits [] = False"
| "well_formed_digits [c] = is_digit c"
| "well_formed_digits (c # d # r) =
     (is_digit c \<and> (if d = CHR ''_'' then well_formed_digits r else well_formed_digits (d # r)))"

text \<open>\<^verbatim>\<open>int(s)\<close> for a bytes object \<open>s\<close>.\<close>

definition py_int :: "string \<Rightarrow> error + int" where
  "py_int s =
     (let t = dropWhile is_space s;
          signed = (take 1 t = ''-'' \<or> take 1 t = ''+'');
          u = (if signed then drop 1 t else t);
          ds = takeWhile (\<lambda>c. is_digit c \<or> c = CHR ''_'') u;
          rest = dropWhile (\<lambda>c. is_digit c \<or> c = CHR ''_'') u
      in if well_formed_digits ds \<and> list_all is_space rest
         then Inr ((if take 1 t = ''-'' then - 1 else 1)
                   * foldl (\<lambda>a c. 10 * a + digit_val c) 0 (filter is_digit ds))
         else Inl (ValueError (''invalid literal for int() with base 10: '' @ bytes_repr s)))"

text \<open>\<^verbatim>\<open>'%i' % n\<close> and \<^verbatim>\<open>'{}'.format(n)\<close> for an integer.\<close>

definition str_int :: "int \<Rightarrow> string" where
  "str_int n = (if n < 0 then ''-'' @ dec (nat (- n)) else dec (nat n))"

text \<open>
  The constructors \<^verbatim>\<open>date(y, m, d)\<close> and \<^verbatim>\<open>datetime(y, m, d, hh, mm, ss, us, tz)\<close>
  check the fields in this order.
\<close>

definition mk_date :: "int \<Rightarrow> int \<Rightarrow> int \<Rightarrow> error + int \<times> int \<times> int" where
  "mk_date y m d =
     (if y < 1 \<or> y > 9999 then Inl (ValueError (''year '' @ str_int y @ '' is out of range''))
      else if m < 1 \<or> m > 12 then Inl (ValueError ''month must be in 1..12'')
      else if d < 1 \<or> d > days_in_month y m then Inl (ValueError ''day is out of range for month'')
      else Inr (y, m, d))"

definition mk_datetime ::
  "int \<Rightarrow> int \<Rightarrow> int \<Rightarrow> int \<Rightarrow> int \<Rightarrow> int \<Rightarrow> int \<Rightarrow> int option \<Rightarrow> error + datetime" where
  "mk_datetime y m d hh mm ss us tz =
     (case mk_date y m d of
        Inl e \<Rightarrow> Inl e
      | Inr _ \<Rightarrow>
          if hh < 0 \<or> hh > 23 then Inl (ValueError ''hour must be in 0..23'')
          else if mm < 0 \<or> mm > 59 then Inl (ValueError ''minute must be in 0..59'')
          else if ss < 0 \<or> ss > 59 then Inl (ValueError ''second must be in 0..59'')
          else if us < 0 \<or> us > 999999 then Inl (ValueError ''microsecond must be in 0..999999'')
          else Inr \<lparr>dt_year = y, dt_month = m, dt_day = d, dt_hour = hh, dt_minute = mm,
                    dt_second = ss, dt_microsecond = us, dt_tzinfo = tz\<rparr>)"

text \<open>\<^verbatim>\<open>date + timedelta\<close>, given the ordinal of the result.\<close>

definition date_of_ordinal :: "int \<Rightarrow> error + int \<times> int \<times> int" where
  "date_of_ordinal n =
     (if 1 \<le> n \<and> n \<le> 3652059 then Inr (ord2ymd n)
      else Inl (OverflowError ''date value out of range''))"

definition parse_isodate_common :: "string \<Rightarrow> error + (int \<times> int \<times> int) \<times> nat" where
  "parse_isodate_common s =
     (let len_str = length s in
      if len_str < 4 then Inl (ValueError ''ISO string too short'')
      else
       (case py_int (take 4 s) of
          Inl e \<Rightarrow> Inl e
        | Inr y \<Rightarrow>
           (if 4 \<ge> len_str then Inr ((y, 1, 1), 4)
            else
              let has_sep = (take 1 (drop 4 s) = ''-'');
                  pos = (if has_sep then 5 else 4)
              in if len_str - pos < 2 then Inl (ValueError ''Invalid common month'')
                 else
                  (case py_int (take 2 (drop pos s)) of
                     Inl e \<Rightarrow> Inl e
                   | Inr m \<Rightarrow>
                      (let pos = pos + 2 in
                       if pos \<ge> len_str
                       then (if has_sep then Inr ((y, m, 1), pos)
                             else Inl (ValueError ''Invalid ISO format''))
                       else if has_sep \<and> take 1 (drop pos s) \<noteq> ''-''
                       then Inl (ValueError ''Invalid separator in ISO string'')
                       else
                         let pos = (if has_sep then pos + 1 else pos) in
                         if len_str - pos < 2 then Inl (ValueError ''Invalid common day'')
                         else
                          (case py_int (take 2 (drop pos s)) of
                             Inl e \<Rightarrow> Inl e
                           | Inr d \<Rightarrow> Inr ((y, m, d), pos + 2)))))))"

text \<open>
  The day of an ISO week date: week 1 is the week of January 4th, and \<open>week_1\<close> is the
  ordinal of its Monday.
\<close>

definition calculate_weekdate :: "int \<Rightarrow> int \<Rightarrow> int \<Rightarrow> error + int \<times> int \<times> int" where
  "calculate_weekdate year week day =
     (if \<not> (0 < week \<and> week < 54) then Inl (ValueError (''Invalid week: '' @ str_int week))
      else if \<not> (0 < day \<and> day < 8) then Inl (ValueError (''Invalid weekday: '' @ str_int day))
      else
       (case mk_date year 1 4 of
          Inl e \<Rightarrow> Inl e
        | Inr _ \<Rightarrow>
           (let jan_4 = ymd2ord year 1 4;
                isoweekday = (jan_4 + 6) mod 7 + 1;
                week_1 = jan_4 - (isoweekday - 1)
            in case date_of_ordinal week_1 of
                 Inl e \<Rightarrow> Inl e
               | Inr _ \<Rightarrow> date_of_ordinal (week_1 + ((week - 1) * 7 + (day - 1))))))"

definition parse_isodate_uncommon :: "string \<Rightarrow> error + (int \<times> int \<times> int) \<times> nat" where
  "parse_isodate_uncommon s =
     (if length s < 4 then Inl (ValueError ''ISO string too short'')
      else
       (case py_int (take 4 s) of
          Inl e \<Rightarrow> Inl e
        | Inr year \<Rightarrow>
           (let has_sep = (take 1 (drop 4 s) = ''-'');
                pos = 4 + (if has_sep then 1 else 0)
            in if take 1 (drop pos s) = ''W''
               then
                (let pos = pos + 1 in
                 case py_int (take 2 (drop pos s)) of
                   Inl e \<Rightarrow> Inl e
                 | Inr weekno \<Rightarrow>
                    (let pos = pos + 2 in
                     case (if length s > pos
                           then (if (take 1 (drop pos s) = ''-'') \<noteq> has_sep
                                 then Inl (ValueError ''Inconsistent use of dash separator'')
                                 else
                                  (let pos = pos + (if has_sep then 1 else 0) in
                                   case py_int (take 1 (drop pos s)) of
                                     Inl e \<Rightarrow> Inl e
                                   | Inr dayno \<Rightarrow> Inr (dayno, pos + 1)))
                           else Inr (1, pos)) of
                       Inl e \<Rightarrow> Inl e
                     | Inr (dayno, pos) \<Rightarrow>
                        (case calculate_weekdate year weekno dayno of
                           Inl e \<Rightarrow> Inl e
                         | Inr ymd \<Rightarrow> Inr (ymd, pos))))
               else if length s - pos < 3 then Inl (ValueError ''Invalid ordinal day'')
               else
                (case py_int (take 3 (drop pos s)) of
                   Inl e \<Rightarrow> Inl e
                 | Inr ordinal_day \<Rightarrow>
                    if ordinal_day < 1 \<or> ordinal_day > 365 + (if is_leap year then 1 else 0)
                    then Inl (ValueError (''Invalid ordinal day '' @ str_int ordinal_day
                                          @ '' for year '' @ str_int year))
                    else
                     (case mk_date year 1 1 of
                        Inl e \<Rightarrow> Inl e
                      | Inr _ \<Rightarrow>
                         (case date_of_ordinal (ymd2ord year 1 1 + (ordinal_day - 1)) of
                            Inl e \<Rightarrow> Inl e
                          | Inr ymd \<Rightarrow> Inr (ymd, pos + 3)))))))"

text \<open>\<^verbatim>\<open>try: common except ValueError: uncommon\<close>\<close>

definition parse_isodate :: "string \<Rightarrow> error + (int \<times> int \<times> int) \<times> nat" where
  "parse_isodate s =
     (case parse_isodate_common s of
        Inl (ValueError text) \<Rightarrow> parse_isodate_uncommon s
      | r \<Rightarrow> r)"

definition parse_tzstr :: "string \<Rightarrow> error + int" where
  "parse_tzstr tzstr =
     (if tzstr = ''Z'' \<or> tzstr = ''z'' then Inr 0
      else if length tzstr \<notin> {3, 5, 6}
      then Inl (ValueError ''Time zone offset must be 1, 3, 5 or 6 characters'')
      else if take 1 tzstr \<noteq> ''-'' \<and> take 1 tzstr \<noteq> ''+''
      then Inl (ValueError ''Time zone offset requires sign'')
      else
        let mult = (if take 1 tzstr = ''-'' then - 1 else 1 :: int) in
        (case py_int (take 2 (drop 1 tzstr)) of
           Inl e \<Rightarrow> Inl e
         | Inr hours \<Rightarrow>
            (case (if length tzstr = 3 then Inr 0
                   else py_int (drop (if take 1 (drop 3 tzstr) = '':'' then 4 else 3) tzstr)) of
               Inl e \<Rightarrow> Inl e
             | Inr mins \<Rightarrow>
                 if hours = 0 \<and> mins = 0 then Inr 0
                 else if mins > 59 then Inl (ValueError ''Invalid minutes in time zone offset'')
                 else if hours > 23 then Inl (ValueError ''Invalid hours in time zone offset'')
                 else Inr (mult * (hours * 60 + mins) * 60 * 1000000))))"

text \<open>
  The components of a time: hour, minute, second, microsecond, zone.  \<open>set_component\<close>
  is \<^verbatim>\<open>components[comp] = v\<close> for an index below 4.
\<close>

type_synonym time_components = "int \<times> int \<times> int \<times> int \<times> int option"

fun set_component :: "nat \<Rightarrow> int \<Rightarrow> time_components \<Rightarrow> time_components" where
  "set_component i v (hh, mm, ss, us, tz) =
     (if i = 0 then (v, mm, ss, us, tz)
      else if i = 1 then (hh, v, ss, us, tz)
      else if i = 2 then (hh, mm, v, us, tz)
      else (hh, mm, ss, v, tz))"

fun set_zone :: "int \<Rightarrow> time_components \<Rightarrow> time_components" where
  "set_zone off (hh, mm, ss, us, tz) = (hh, mm, ss, us, Some off)"

text \<open>
  The loop \<^verbatim>\<open>while pos < len_str and comp < 5\<close>.  The argument \<open>i\<close> is the value of
  \<^verbatim>\<open>comp\<close> after \<^verbatim>\<open>comp += 1\<close>, so the first call has \<open>i = 0\<close> and the loop runs
  while \<open>i < 6\<close>.  The result carries the final position.
\<close>

function parse_isotime_loop ::
  "string \<Rightarrow> nat \<Rightarrow> nat \<Rightarrow> bool \<Rightarrow> time_components \<Rightarrow> error + time_components \<times> nat" where
  "parse_isotime_loop ts pos i has_sep cs =
     (if \<not> (pos < length ts \<and> i < 6) then Inr (cs, pos)
      else if take 1 (drop pos ts) \<in> {''-'', ''+'', ''Z'', ''z''}
      then (case parse_tzstr (drop pos ts) of
              Inl e \<Rightarrow> Inl e
            | Inr off \<Rightarrow> Inr (set_zone off cs, length ts))
      else if i = 2 \<and> has_sep \<and> take 1 (drop pos ts) \<noteq> '':''
      then Inl (ValueError ''Inconsistent use of colon separator'')
      else
        let sep_now = (i = 1 \<and> take 1 (drop pos ts) = '':'');
            has_sep = (has_sep \<or> sep_now);
            pos = (if sep_now \<or> (i = 2 \<and> has_sep) then pos + 1 else pos)
        in if i < 3
           then (case py_int (take 2 (drop pos ts)) of
                   Inl e \<Rightarrow> Inl e
                 | Inr v \<Rightarrow>
                     parse_isotime_loop ts (pos + 2) (Suc i) has_sep (set_component i v cs))
           else if i = 3
           then
             (let frac = takeWhile is_digit (drop (pos + 1) ts) in
              if take 1 (drop pos ts) \<in> {''.'', '',''} \<and> frac \<noteq> []
              then (case py_int (take 6 frac) of
                      Inl e \<Rightarrow> Inl e
                    | Inr v \<Rightarrow>
                        parse_isotime_loop ts (pos + 1 + length frac) (Suc i) has_sep
                          (set_component i (v * 10 ^ (6 - length (take 6 frac))) cs))
              else parse_isotime_loop ts pos (Suc i) has_sep cs)
           else parse_isotime_loop ts pos (Suc i) has_sep cs)"
  by pat_completeness auto
termination
  by (relation "measure (\<lambda>(ts, pos, i, has_sep, cs). 6 - i)") auto

definition parse_isotime :: "string \<Rightarrow> error + time_components" where
  "parse_isotime timestr =
     (if length timestr < 2 then Inl (ValueError ''ISO time too short'')
      else
       (case parse_isotime_loop timestr 0 0 False (0, 0, 0, 0, None) of
          Inl e \<Rightarrow> Inl e
        | Inr ((hh, mm, ss, us, tz), pos) \<Rightarrow>
            if pos < length timestr then Inl (ValueError ''Unused components in ISO string'')
            else if hh = 24 \<and> (mm \<noteq> 0 \<or> ss \<noteq> 0 \<or> us \<noteq> 0)
            then Inl (ValueError ''Hour may only be 24 at 24:00:00.000'')
            else Inr (hh, mm, ss, us, tz)))"

text \<open>\<^verbatim>\<open>datetime + timedelta(days=1)\<close>, used for the midnight written as hour 24.\<close>

definition add_one_day :: "datetime \<Rightarrow> error + datetime" where
  "add_one_day d =
     (let r = from_micro (wall_micro d + 86400000000) (dt_tzinfo d) in
      if 1 \<le> dt_year r \<and> dt_year r \<le> 9999 then Inr r
      else Inl (OverflowError ''date value out of range''))"

definition isoparse :: "string \<Rightarrow> error + datetime" where
  "isoparse dt_str =
     (if \<not> list_all (\<lambda>c. (of_char c :: nat) < 128) dt_str
      then Inl (ValueError ''ISO-8601 strings should contain only ASCII characters'')
      else
       (case parse_isodate dt_str of
          Inl e \<Rightarrow> Inl e
        | Inr ((y, m, d), pos) \<Rightarrow>
            if length dt_str > pos
            then (case parse_isotime (drop (pos + 1) dt_str) of
                    Inl e \<Rightarrow> Inl e
                  | Inr (hh, mm, ss, us, tz) \<Rightarrow>
                      if hh = 24
                      then (case mk_datetime y m d 0 mm ss us tz of
                              Inl e \<Rightarrow> Inl e
                            | Inr r \<Rightarrow> add_one_day r)
                      else mk_datetime y m d hh mm ss us tz)
            else mk_datetime y m d 0 0 0 0 None))"

section \<open>The world outside the program\<close>

text \<open>
  The program talks to three services (EC2, Lambda, CodePipeline) through boto3 clients
  and reads the process environment, the system clock and the random generator.  The
  world holds what those calls read and change.  Every client call is appended to
  \<open>trace\<close>; the \<open>n\<close>-th call of a run fails with \<open>e\<close> when \<open>faults n = Some e\<close>, which
  stands for any failure the service or the network may produce.
\<close>

type_synonym tags = "(string \<times> string) list"

record nat_gateway =
  gw_id :: string
  gw_state :: string
  gw_vpc :: string
  gw_created :: datetime
  gw_tags :: tags

record address =
  addr_alloc :: string
  addr_tags :: tags

record subnet =
  sn_id :: string
  sn_vpc :: string
  sn_tags :: tags

record route_table =
  rt_id :: string
  rt_tags :: tags
  rt_routes :: "string \<rightharpoonup> string"

datatype call =
    DescribeNatGateways "string list" "string list"
  | DescribeAddresses "string list" "string list"
  | DescribeSubnets "string list" "string list"
  | CreateNatGateway "string option" string
  | CreateTags string tags
  | WaitNatGatewayAvailable string
  | DescribeRouteTables "string list"
  | DeleteRoute string string
  | CreateRoute string string string
  | DeleteNatGateway string
  | InvokeLambda string string
  | PutJobSuccessResult string
  | PutJobFailureResult string string

record world =
  gateways :: "nat_gateway list"
  addresses :: "address list"
  subnets :: "subnet list"
  route_tables :: "route_table list"
  environ :: "string \<rightharpoonup> string"
  clock :: "nat \<Rightarrow> int"
  ticks :: nat
  random :: "nat \<Rightarrow> nat"
  draws :: nat
  new_ids :: "nat \<Rightarrow> string"
  faults :: "nat \<Rightarrow> error option"
  trace :: "call list"

type_synonym 'a result = "(error + 'a) \<times> world"

text \<open>\<open>issue c w\<close> records the call and tells whether it fails.\<close>

definition issue :: "call \<Rightarrow> world \<Rightarrow> error option \<times> world" where
  "issue c w = (faults w (length (trace w)), w\<lparr>trace := trace w @ [c]\<rparr>)"

subsection \<open>Environment, clock and random choice\<close>

definition getenv :: "string \<Rightarrow> world \<Rightarrow> error + string" where
  "getenv k w = (case environ w k of None \<Rightarrow> Inl (KeyError k) | Some v \<Rightarrow> Inr v)"

text \<open>
  \<open>clock w n\<close> is the \<open>n\<close>-th reading of the system clock, in microseconds of UTC since
  0001-01-01 00:00:00.  \<^verbatim>\<open>datetime.utcnow()\<close> is the naive reading; \<^verbatim>\<open>datetime.now(tz)\<close>
  is the reading moved to the zone \<open>tz\<close> and aware of it, and the naive reading for
  \<^verbatim>\<open>tz = None\<close> (the local zone of the function's runtime is UTC).
\<close>

definition utcnow :: "world \<Rightarrow> datetime \<times> world" where
  "utcnow w = (from_micro (clock w (ticks w)) None, w\<lparr>ticks := Suc (ticks w)\<rparr>)"

definition now :: "int option \<Rightarrow> world \<Rightarrow> datetime \<times> world" where
  "now tz w =
     (from_micro (clock w (ticks w) + (case tz of None \<Rightarrow> 0 | Some off \<Rightarrow> off)) tz,
      w\<lparr>ticks := Suc (ticks w)\<rparr>)"

definition random_choice :: "'a list \<Rightarrow> world \<Rightarrow> 'a result" where
  "random_choice xs w =
     (if xs = [] then (Inl (IndexError ''Cannot choose from an empty sequence''), w)
      else (Inr (xs ! (random w (draws w) mod length xs)), w\<lparr>draws := Suc (draws w)\<rparr>))"

subsection \<open>The EC2 client\<close>

definition tag_in :: "tags \<Rightarrow> string \<Rightarrow> string list \<Rightarrow> bool" where
  "tag_in ts k vs = (case map_of ts k of None \<Rightarrow> False | Some v \<Rightarrow> v \<in> set vs)"

definition set_tag :: "string \<times> string \<Rightarrow> tags \<Rightarrow> tags" where
  "set_tag kv ts = (if fst kv \<in> fst ` set ts
                    then map (\<lambda>p. if fst p = fst kv then kv else p) ts
                    else ts @ [kv])"

definition set_tags :: "tags \<Rightarrow> tags \<Rightarrow> tags" where
  "set_tags new ts = foldl (\<lambda>acc kv. set_tag kv acc) ts new"

definition describe_nat_gateways :: "string list \<Rightarrow> string list \<Rightarrow> world \<Rightarrow> nat_gateway list result" where
  "describe_nat_gateways states vpcs w =
     (case issue (DescribeNatGateways states vpcs) w of
        (Some e, w') \<Rightarrow> (Inl e, w')
      | (None, w') \<Rightarrow>
          (Inr (filter (\<lambda>g. gw_state g \<in> set states \<and> gw_vpc g \<in> set vpcs) (gateways w')), w'))"

definition describe_addresses :: "string list \<Rightarrow> string list \<Rightarrow> world \<Rightarrow> address list result" where
  "describe_addresses names vpcnames w =
     (case issue (DescribeAddresses names vpcnames) w of
        (Some e, w') \<Rightarrow> (Inl e, w')
      | (None, w') \<Rightarrow>
          (Inr (filter (\<lambda>a. tag_in (addr_tags a) ''Name'' names
                             \<and> tag_in (addr_tags a) ''ForVpc'' vpcnames) (addresses w')), w'))"

definition describe_subnets :: "string list \<Rightarrow> string list \<Rightarrow> world \<Rightarrow> subnet list result" where
  "describe_subnets publics vpcs w =
     (case issue (DescribeSubnets publics vpcs) w of
        (Some e, w') \<Rightarrow> (Inl e, w')
      | (None, w') \<Rightarrow>
          (Inr (filter (\<lambda>s. tag_in (sn_tags s) ''Public'' publics \<and> sn_vpc s \<in> set vpcs)
                  (subnets w')), w'))"

text \<open>
  \<^verbatim>\<open>create_nat_gateway(AllocationId, SubnetId)\<close>: the client refuses a \<^verbatim>\<open>None\<close>
  argument before it sends anything; the service refuses an unknown subnet; otherwise a
  gateway in state \<^verbatim>\<open>pending\<close> appears, created at the current clock reading.
\<close>

definition ec2_create_nat_gateway :: "string option \<Rightarrow> string \<Rightarrow> world \<Rightarrow> string result" where
  "ec2_create_nat_gateway alloc sid w =
     (case issue (CreateNatGateway alloc sid) w of
        (Some e, w') \<Rightarrow> (Inl e, w')
      | (None, w') \<Rightarrow>
         (case alloc of
            None \<Rightarrow> (Inl (ParamValidationError ''Invalid type for parameter AllocationId, value: None''), w')
          | Some a \<Rightarrow>
             (case find (\<lambda>s. sn_id s = sid) (subnets w') of
                None \<Rightarrow> (Inl (ClientError ''InvalidSubnetID.NotFound'' ''The subnet ID does not exist''), w')
              | Some s \<Rightarrow>
                  (let gid = new_ids w' (length (gateways w'));
                       g = \<lparr>gw_id = gid, gw_state = ''pending'', gw_vpc = sn_vpc s,
                            gw_created = from_micro (clock w' (ticks w')) (Some 0), gw_tags = []\<rparr>
                   in (Inr gid, w'\<lparr>gateways := gateways w' @ [g], ticks := Suc (ticks w')\<rparr>)))))"

definition ec2_create_tags :: "string \<Rightarrow> tags \<Rightarrow> world \<Rightarrow> unit result" where
  "ec2_create_tags rid ts w =
     (case issue (CreateTags rid ts) w of
        (Some e, w') \<Rightarrow> (Inl e, w')
      | (None, w') \<Rightarrow>
          if rid \<in> gw_id ` set (gateways w')
          then (Inr (), w'\<lparr>gateways := map (\<lambda>g. if gw_id g = rid
                                                   then g\<lparr>gw_tags := set_tags ts (gw_tags g)\<rparr>
                                                   else g) (gateways w')\<rparr>)
          else (Inl (ClientError ''InvalidNatGatewayID.NotFound'' ''The NAT gateway does not exist''), w'))"

text \<open>The waiter \<^verbatim>\<open>nat_gateway_available\<close>: it returns once the gateway is available.\<close>

definition wait_nat_gateway_available :: "string \<Rightarrow> world \<Rightarrow> unit result" where
  "wait_nat_gateway_available gid w =
     (case issue (WaitNatGatewayAvailable gid) w of
        (Some e, w') \<Rightarrow> (Inl e, w')
      | (None, w') \<Rightarrow>
          if gid \<in> gw_id ` set (filter (\<lambda>g. gw_state g \<in> {''pending'', ''available''}) (gateways w'))
          then (Inr (), w'\<lparr>gateways := map (\<lambda>g. if gw_id g = gid \<and> gw_state g = ''pending''
                                                   then g\<lparr>gw_state := ''available''\<rparr>
                                                   else g) (gateways w')\<rparr>)
          else (Inl (WaiterError ''Waiter NatGatewayAvailable failed''), w'))"

definition ec2_delete_nat_gateway :: "string \<Rightarrow> world \<Rightarrow> unit result" where
  "ec2_delete_nat_gateway gid w =
     (case issue (DeleteNatGateway gid) w of
        (Some e, w') \<Rightarrow> (Inl e, w')
      | (None, w') \<Rightarrow>
          if gid \<in> gw_id ` set (gateways w')
          then (Inr (), w'\<lparr>gateways := map (\<lambda>g. if gw_id g = gid
                                                   then g\<lparr>gw_state := ''deleting''\<rparr>
                                                   else g) (gateways w')\<rparr>)
          else (Inl (ClientError ''NatGatewayNotFound'' ''The NAT gateway was not found''), w'))"

definition describe_route_tables :: "string list \<Rightarrow> world \<Rightarrow> route_table list result" where
  "describe_route_tables vals w =
     (case issue (DescribeRouteTables vals) w of
        (Some e, w') \<Rightarrow> (Inl e, w')
      | (None, w') \<Rightarrow>
          (Inr (filter (\<lambda>t. tag_in (rt_tags t) ''OnDemandNAT'' vals) (route_tables w')), w'))"

text \<open>
  \<^verbatim>\<open>delete_route\<close> answers \<^verbatim>\<open>InvalidRoute.NotFound\<close> when the table has no route for
  the destination; \<^verbatim>\<open>create_route\<close> answers \<^verbatim>\<open>RouteAlreadyExists\<close> when it has one.
\<close>

definition ec2_delete_route :: "string \<Rightarrow> string \<Rightarrow> world \<Rightarrow> unit result" where
  "ec2_delete_route tid dest w =
     (case issue (DeleteRoute tid dest) w of
        (Some e, w') \<Rightarrow> (Inl e, w')
      | (None, w') \<Rightarrow>
         (case find (\<lambda>t. rt_id t = tid) (route_tables w') of
            None \<Rightarrow> (Inl (ClientError ''InvalidRouteTableID.NotFound'' ''The route table does not exist''), w')
          | Some t \<Rightarrow>
             (case rt_routes t dest of
                None \<Rightarrow> (Inl (ClientError ''InvalidRoute.NotFound'' ''no route with that destination''), w')
              | Some g \<Rightarrow>
                  (Inr (), w'\<lparr>route_tables :=
                     map (\<lambda>t. if rt_id t = tid then t\<lparr>rt_routes := (rt_routes t)(dest := None)\<rparr> else t)
                       (route_tables w')\<rparr>))))"

definition ec2_create_route :: "string \<Rightarrow> string \<Rightarrow> string \<Rightarrow> world \<Rightarrow> unit result" where
  "ec2_create_route tid dest gid w =
     (case issue (CreateRoute tid dest gid) w of
        (Some e, w') \<Rightarrow> (Inl e, w')
      | (None, w') \<Rightarrow>
         (case find (\<lambda>t. rt_id t = tid) (route_tables w') of
            None \<Rightarrow> (Inl (ClientError ''InvalidRouteTableID.NotFound'' ''The route table does not exist''), w')
          | Some t \<Rightarrow>
             (case rt_routes t dest of
                Some g \<Rightarrow> (Inl (ClientError ''RouteAlreadyExists'' ''The route already exists''), w')
              | None \<Rightarrow>
                  (Inr (), w'\<lparr>route_tables :=
                     map (\<lambda>t. if rt_id t = tid then t\<lparr>rt_routes := (rt_routes t)(dest \<mapsto> gid)\<rparr> else t)
                       (route_tables w')\<rparr>))))"

subsection \<open>The Lambda and CodePipeline clients\<close>

definition lambda_invoke :: "string \<Rightarrow> string \<Rightarrow> world \<Rightarrow> unit result" where
  "lambda_invoke fname payload w =
     (case issue (InvokeLambda fname payload) w of
        (Some e, w') \<Rightarrow> (Inl e, w')
      | (None, w') \<Rightarrow> (Inr (), w'))"

definition put_job_success_result :: "string \<Rightarrow> world \<Rightarrow> unit result" where
  "put_job_success_result jid w =
     (case issue (PutJobSuccessResult jid) w of
        (Some e, w') \<Rightarrow> (Inl e, w')
      | (None, w') \<Rightarrow> (Inr (), w'))"

definition put_job_failure_result :: "string \<Rightarrow> string \<Rightarrow> world \<Rightarrow> unit result" where
  "put_job_failure_result jid msg w =
     (case issue (PutJobFailureResult jid msg) w of
        (Some e, w') \<Rightarrow> (Inl e, w')
      | (None, w') \<Rightarrow> (Inr (), w'))"

section \<open>The program: \<^verbatim>\<open>RequestGateway.py\<close>\<close>

text \<open>
  A statement that may raise returns \<open>Inl\<close> with the exception and the world as it was
  left; \<open>and_then\<close> runs the rest of a block only after a statement that returned.
\<close>

definition and_then :: "'a result \<Rightarrow> ('a \<Rightarrow> world \<Rightarrow> 'b result) \<Rightarrow> 'b result" where
  "and_then r f = (case r of (Inl e, w) \<Rightarrow> (Inl e, w) | (Inr x, w) \<Rightarrow> f x w)"

text \<open>
  One entry of the inventory: \<^verbatim>\<open>[NatGatewayId, State, CreateTime, LastRequested]\<close>,
  the last one \<open>None\<close> when the gateway has no such tag.
\<close>

type_synonym gateway_entry = "string \<times> string \<times> datetime \<times> string option"

definition list_nat_gateways :: "world \<Rightarrow> gateway_entry list option result" where
  "list_nat_gateways w =
     (case getenv ''VPC_ID'' w of
        Inl e \<Rightarrow> (Inl e, w)
      | Inr vpc_id \<Rightarrow>
          and_then (describe_nat_gateways [''pending'', ''available''] [vpc_id] w)
            (\<lambda>gateway_json w.
               let gateways = map (\<lambda>g. (gw_id g, gw_state g, gw_created g,
                                         map_of (gw_tags g) ''LastRequested'')) gateway_json
               in if length gateways > 0 then (Inr (Some gateways), w) else (Inr None, w)))"

definition create_nat_gateway :: "world \<Rightarrow> string result" where
  "create_nat_gateway w =
     (case getenv ''VPC_NAME'' w of
        Inl e \<Rightarrow> (Inl e, w)
      | Inr vpc_name \<Rightarrow>
          and_then (describe_addresses [''OnDemandNAT-IPAddr''] [vpc_name] w)
            (\<lambda>alloc_json w.
               let allocId = (case alloc_json of [] \<Rightarrow> None | a # _ \<Rightarrow> Some (addr_alloc a)) in
               case getenv ''VPC_ID'' w of
                 Inl e \<Rightarrow> (Inl e, w)
               | Inr vpc_id \<Rightarrow>
                   and_then (describe_subnets [''Yes''] [vpc_id] w)
                     (\<lambda>subnet_json w.
                        let subnet_list = map sn_id subnet_json in
                        and_then (random_choice subnet_list w)
                          (\<lambda>subnetId w.
                             and_then (ec2_create_nat_gateway allocId subnetId w)
                               (\<lambda>gatewayId w.
                                  case utcnow w of (stamp, w) \<Rightarrow>
                                   (case getenv ''VPC_NAME'' w of
                                      Inl e \<Rightarrow> (Inl e, w)
                                    | Inr vpc_name \<Rightarrow>
                                        and_then (ec2_create_tags gatewayId
                                                    [(''OnDemandNAT'', ''True''),
                                                     (''Name'', ''OnDemandNAT-Gateway''),
                                                     (''LastRequested'', str_datetime stamp),
                                                     (''ForVpc'', vpc_name),
                                                     (''Application'', ''OnDemandNAT''),
                                                     (''Environment'', ''Infrastructure'')] w)
                                          (\<lambda>_ w.
                                             and_then (wait_nat_gateway_available gatewayId w)
                                               (\<lambda>_ w. (Inr gatewayId, w)))))))))"

text \<open>The body of the loop of \<^verbatim>\<open>update_route_tables\<close>, for one route table.\<close>

definition update_route_table :: "string \<Rightarrow> string \<Rightarrow> world \<Rightarrow> unit result" where
  "update_route_table gatewayId routeTableId w =
     (case ec2_delete_route routeTableId ''0.0.0.0/0'' w of
        (Inl (ClientError code text), w) \<Rightarrow>
          if code \<noteq> ''InvalidRoute.NotFound'' then (Inl (ClientError code text), w)
          else ec2_create_route routeTableId ''0.0.0.0/0'' gatewayId w
      | (Inl e, w) \<Rightarrow> (Inl e, w)
      | (Inr _, w) \<Rightarrow> ec2_create_route routeTableId ''0.0.0.0/0'' gatewayId w)"

fun update_route_tables_loop :: "string \<Rightarrow> string list \<Rightarrow> world \<Rightarrow> unit result" where
  "update_route_tables_loop gatewayId [] w = (Inr (), w)"
| "update_route_tables_loop gatewayId (routeTableId # rest) w =
     and_then (update_route_table gatewayId routeTableId w)
       (\<lambda>_ w. update_route_tables_loop gatewayId rest w)"

definition update_route_tables :: "string \<Rightarrow> world \<Rightarrow> unit result" where
  "update_route_tables gatewayId w =
     and_then (describe_route_tables [''Yes'', ''True''] w)
       (\<lambda>routes_json w. update_route_tables_loop gatewayId (map rt_id routes_json) w)"

definition invoke_lambda :: "string \<Rightarrow> world \<Rightarrow> unit result" where
  "invoke_lambda payload w = lambda_invoke ''afipApi'' payload w"

subsection \<open>Events and results\<close>

text \<open>
  Of the event the handlers read two keys: \<^verbatim>\<open>'CodePipeline.job'\<close> (a dictionary, when
  present) and \<^verbatim>\<open>'Records'\<close> (a list of dictionaries, when present).
\<close>

record event =
  ev_job :: "(string \<rightharpoonup> string) option"
  ev_records :: "(string \<rightharpoonup> string) list option"

text \<open>\<^verbatim>\<open>event['Records'][0]['body']\<close>\<close>

definition event_body :: "event \<Rightarrow> error + string" where
  "event_body ev =
     (case ev_records ev of
        None \<Rightarrow> Inl (KeyError ''Records'')
      | Some [] \<Rightarrow> Inl (IndexError ''list index out of range'')
      | Some (r # _) \<Rightarrow> (case r ''body'' of None \<Rightarrow> Inl (KeyError ''body'') | Some b \<Rightarrow> Inr b))"

text \<open>
  The dictionary \<^verbatim>\<open>info\<close> of the request handler: \<open>nat_existing = None\<close> when the key
  \<^verbatim>\<open>'nat-existing'\<close> is absent.
\<close>

record request_info =
  statusCode :: int
  nat_existing :: "bool option"

text \<open>
  One entry of \<^verbatim>\<open>gw_change_list\<close>.  The source stores the texts \<^verbatim>\<open>'%s' % age\<close> and
  \<^verbatim>\<open>'%s' % inactive\<close>; the model keeps the durations themselves.
\<close>

record change =
  ch_action :: string
  ch_gatewayId :: string
  ch_age :: timedelta
  ch_inactive :: timedelta

record check_info =
  nat_changed :: "change list"

subsection \<open>\<^verbatim>\<open>request_gateway_handler\<close>\<close>

text \<open>The loop of lines 115 to 119: every discovered gateway gets a new LastRequested tag.\<close>

fun refresh_loop :: "gateway_entry list \<Rightarrow> world \<Rightarrow> unit result" where
  "refresh_loop [] w = (Inr (), w)"
| "refresh_loop ((gatewayId, state, created, lastRequested) # rest) w =
     (case utcnow w of (stamp, w) \<Rightarrow>
        and_then (ec2_create_tags gatewayId [(''LastRequested'', str_datetime stamp)] w)
          (\<lambda>_ w. refresh_loop rest w))"

text \<open>Lines 104 to 119: what the handler does with the inventory.\<close>

definition request_inventory :: "gateway_entry list option \<Rightarrow> world \<Rightarrow> request_info result" where
  "request_inventory gateway_list w =
     (let info = \<lparr>statusCode = 200, nat_existing = None\<rparr> in
      if gateway_list = None
      then and_then (create_nat_gateway w)
             (\<lambda>gatewayId w.
                and_then (update_route_tables gatewayId w) (\<lambda>_ w. (Inr info, w)))
      else (let info = info\<lparr>nat_existing := Some True\<rparr> in
            and_then (refresh_loop (the gateway_list) w) (\<lambda>_ w. (Inr info, w))))"

text \<open>Lines 102 to 119: inventory, then provisioning and convergence, or refresh.\<close>

definition request_main :: "world \<Rightarrow> request_info result" where
  "request_main w = and_then (list_nat_gateways w) request_inventory"

text \<open>Lines 121 to 127.\<close>

definition report_success :: "event \<Rightarrow> world \<Rightarrow> unit result" where
  "report_success ev w =
     (case ev_job ev of
        None \<Rightarrow> (Inr (), w)
      | Some job \<Rightarrow>
          (case job ''id'' of
             None \<Rightarrow> (Inl (KeyError ''id''), w)
           | Some jid \<Rightarrow> put_job_success_result jid w))"

text \<open>Lines 121 to 131: the report to the job, the downstream call, the result.\<close>

definition request_finish :: "event \<Rightarrow> request_info \<Rightarrow> world \<Rightarrow> request_info result" where
  "request_finish ev info w =
     and_then (report_success ev w)
       (\<lambda>_ w.
          case event_body ev of
            Inl e \<Rightarrow> (Inl e, w)
          | Inr body \<Rightarrow> and_then (invoke_lambda body w) (\<lambda>_ w. (Inr info, w)))"

text \<open>The \<^verbatim>\<open>try\<close> block, lines 102 to 131.\<close>

definition request_try :: "event \<Rightarrow> world \<Rightarrow> request_info result" where
  "request_try ev w = and_then (request_main w) (request_finish ev)"

text \<open>The \<^verbatim>\<open>except BaseException\<close> block, lines 132 to 143.\<close>

definition report_failure :: "event \<Rightarrow> error \<Rightarrow> world \<Rightarrow> request_info result" where
  "report_failure ev e w =
     (case ev_job ev of
        None \<Rightarrow> (Inl e, w)
      | Some job \<Rightarrow>
          (case job ''id'' of
             None \<Rightarrow> (Inl (KeyError ''id''), w)
           | Some jid \<Rightarrow>
               and_then (put_job_failure_result jid (error_str e) w) (\<lambda>_ w. (Inl e, w))))"

definition request_gateway_handler :: "event \<Rightarrow> world \<Rightarrow> request_info result" where
  "request_gateway_handler ev w =
     (case request_try ev w of
        (Inr info, w) \<Rightarrow> (Inr info, w)
      | (Inl e, w) \<Rightarrow> report_failure ev e w)"

subsection \<open>\<^verbatim>\<open>check_gateway_required\<close>\<close>

text \<open>Lines 159 to 166: the age of a gateway and its inactivity.\<close>

definition compute_inactivity :: "datetime \<Rightarrow> string option \<Rightarrow> world \<Rightarrow> (timedelta \<times> timedelta) result" where
  "compute_inactivity created lastRequested w =
     (case now (dt_tzinfo created) w of (t, w) \<Rightarrow>
       (case dt_sub t created of
          Inl e \<Rightarrow> (Inl e, w)
        | Inr age \<Rightarrow>
            if lastRequested \<noteq> None
            then (case utcnow w of (u, w) \<Rightarrow>
                   (case isoparse (the lastRequested) of
                      Inl e \<Rightarrow> (Inl e, w)
                    | Inr p \<Rightarrow>
                       (case dt_sub u p of
                          Inl e \<Rightarrow> (Inl e, w)
                        | Inr inactive \<Rightarrow> (Inr (age, inactive), w))))
            else (Inr (age, age), w)))"

text \<open>Lines 168 to 176: delete the gateway or leave it, and the record of what was done.\<close>

definition reap :: "string \<Rightarrow> timedelta \<Rightarrow> timedelta \<Rightarrow> world \<Rightarrow> change result" where
  "reap gid a i w =
     (if i \<ge> minutes 45
      then and_then (ec2_delete_nat_gateway gid w)
             (\<lambda>_ w. (Inr \<lparr>ch_action = ''deleted'', ch_gatewayId = gid, ch_age = a, ch_inactive = i\<rparr>, w))
      else (Inr \<lparr>ch_action = ''skipped'', ch_gatewayId = gid, ch_age = a, ch_inactive = i\<rparr>, w))"

fun check_loop :: "gateway_entry list \<Rightarrow> change list \<Rightarrow> world \<Rightarrow> change list result" where
  "check_loop [] gw_change_list w = (Inr gw_change_list, w)"
| "check_loop ((gid, state, created, lastRequested) # rest) gw_change_list w =
     and_then (compute_inactivity created lastRequested w)
       (\<lambda>(a, i) w.
          and_then (reap gid a i w)
            (\<lambda>c w. check_loop rest (gw_change_list @ [c]) w))"

text \<open>Lines 149 to 181: what the handler does with the inventory.\<close>

definition check_inventory :: "event \<Rightarrow> gateway_entry list option \<Rightarrow> world \<Rightarrow> check_info option result" where
  "check_inventory ev gateway_list w =
     (if gateway_list = None then (Inr None, w)
      else and_then (check_loop (the gateway_list) [] w)
             (\<lambda>gw_change_list w.
                let info = \<lparr>nat_changed = gw_change_list\<rparr> in
                case event_body ev of
                  Inl e \<Rightarrow> (Inl e, w)
                | Inr body \<Rightarrow> and_then (invoke_lambda body w) (\<lambda>_ w. (Inr (Some info), w))))"

definition check_gateway_required :: "event \<Rightarrow> world \<Rightarrow> check_info option result" where
  "check_gateway_required ev w = and_then (list_nat_gateways w) (check_inventory ev)"

section \<open>Reading a run\<close>

text \<open>
  \<open>calls_of w w'\<close> are the client calls made between the world \<open>w\<close> and a later world
  \<open>w'\<close>.  \<open>steps P w w'\<close> says that \<open>w'\<close> comes after \<open>w\<close>: the trace has grown by calls
  that all satisfy \<open>P\<close>, the clock has not run backwards, and what no statement of the
  program can change is unchanged.
\<close>

definition calls_of :: "world \<Rightarrow> world \<Rightarrow> call list" where
  "calls_of w w' = drop (length (trace w)) (trace w')"

definition steps :: "(call \<Rightarrow> bool) \<Rightarrow> world \<Rightarrow> world \<Rightarrow> bool" where
  "steps P w w' =
     ((\<exists>cs. trace w' = trace w @ cs \<and> list_all P cs)
      \<and> faults w' = faults w \<and> clock w' = clock w \<and> environ w' = environ w
      \<and> new_ids w' = new_ids w \<and> random w' = random w
      \<and> addresses w' = addresses w \<and> subnets w' = subnets w
      \<and> ticks w \<le> ticks w')"

fun is_route_call :: "call \<Rightarrow> bool" where
  "is_route_call (DeleteRoute t d) = True"
| "is_route_call (CreateRoute t d g) = True"
| "is_route_call c = False"

fun is_create_gateway :: "call \<Rightarrow> bool" where
  "is_create_gateway (CreateNatGateway a s) = True"
| "is_create_gateway c = False"

fun is_delete_gateway :: "call \<Rightarrow> bool" where
  "is_delete_gateway (DeleteNatGateway g) = True"
| "is_delete_gateway c = False"

fun is_invoke :: "call \<Rightarrow> bool" where
  "is_invoke (InvokeLambda f p) = True"
| "is_invoke c = False"


text \<open>The calls that are queries: they change nothing.\<close>

fun is_query :: "call \<Rightarrow> bool" where
  "is_query (DescribeNatGateways s v) = True"
| "is_query (DescribeAddresses n v) = True"
| "is_query (DescribeSubnets p v) = True"
| "is_query (DescribeRouteTables v) = True"
| "is_query c = False"

text \<open>
  \<open>keeps R f\<close>: the statement \<open>f\<close> takes every world to one related to it by \<open>R\<close>.
  \<open>prims R P\<close>: the relation \<open>R\<close> is reflexive and transitive, holds across a reading of
  the clock or the random generator, and across every client call that satisfies \<open>P\<close>.
\<close>

definition keeps :: "(world \<Rightarrow> world \<Rightarrow> bool) \<Rightarrow> (world \<Rightarrow> 'a \<times> world) \<Rightarrow> bool" where
  "keeps R f = (\<forall>w. R w (snd (f w)))"

definition prims :: "(world \<Rightarrow> world \<Rightarrow> bool) \<Rightarrow> (call \<Rightarrow> bool) \<Rightarrow> bool" where
  "prims R P =
     (reflp R \<and> transp R \<and> keeps R utcnow \<and> (\<forall>tz. keeps R (now tz))
      \<and> (\<forall>xs :: string list. keeps R (random_choice xs))
      \<and> (\<forall>a b. P (DescribeNatGateways a b) \<longrightarrow> keeps R (describe_nat_gateways a b))
      \<and> (\<forall>a b. P (DescribeAddresses a b) \<longrightarrow> keeps R (describe_addresses a b))
      \<and> (\<forall>a b. P (DescribeSubnets a b) \<longrightarrow> keeps R (describe_subnets a b))
      \<and> (\<forall>a b. P (CreateNatGateway a b) \<longrightarrow> keeps R (ec2_create_nat_gateway a b))
      \<and> (\<forall>a b. P (CreateTags a b) \<longrightarrow> keeps R (ec2_create_tags a b))
      \<and> (\<forall>a. P (WaitNatGatewayAvailable a) \<longrightarrow> keeps R (wait_nat_gateway_available a))
      \<and> (\<forall>a. P (DescribeRouteTables a) \<longrightarrow> keeps R (describe_route_tables a))
      \<and> (\<forall>a b. P (DeleteRoute a b) \<longrightarrow> keeps R (ec2_delete_route a b))
      \<and> (\<forall>a b c. P (CreateRoute a b c) \<longrightarrow> keeps R (ec2_create_route a b c))
      \<and> (\<forall>a. P (DeleteNatGateway a) \<longrightarrow> keeps R (ec2_delete_nat_gateway a))
      \<and> (\<forall>a b. P (InvokeLambda a b) \<longrightarrow> keeps R (lambda_invoke a b))
      \<and> (\<forall>a. P (PutJobSuccessResult a) \<longrightarrow> keeps R (put_job_success_result a))
      \<and> (\<forall>a b. P (PutJobFailureResult a b) \<longrightarrow> keeps R (put_job_failure_result a b)))"

text \<open>The calls that each part of the program can make.\<close>

fun inventory_call :: "call \<Rightarrow> bool" where
  "inventory_call (DescribeNatGateways s v) = True"
| "inventory_call c = False"

fun provision_call :: "call \<Rightarrow> bool" where
  "provision_call (DescribeAddresses n v) = True"
| "provision_call (DescribeSubnets p v) = True"
| "provision_call (CreateNatGateway a s) = True"
| "provision_call (CreateTags g t) = True"
| "provision_call (WaitNatGatewayAvailable g) = True"
| "provision_call c = False"

fun converge_call :: "call \<Rightarrow> bool" where
  "converge_call (DescribeRouteTables v) = True"
| "converge_call (DeleteRoute t d) = True"
| "converge_call (CreateRoute t d g) = True"
| "converge_call c = False"

fun refresh_call :: "call \<Rightarrow> bool" where
  "refresh_call (CreateTags g t) = True"
| "refresh_call c = False"

fun job_call :: "call \<Rightarrow> bool" where
  "job_call (PutJobSuccessResult j) = True"
| "job_call (PutJobFailureResult j m) = True"
| "job_call c = False"

text \<open>
  The fields of an inventory entry, and the number of clock readings that the loop of
  the check flow makes for a list of entries: one for an entry without LastRequested
  tag (\<^verbatim>\<open>datetime.now\<close>), two for an entry with one (\<^verbatim>\<open>datetime.now\<close>, then
  \<^verbatim>\<open>datetime.utcnow\<close>).
\<close>

definition entry_id :: "gateway_entry \<Rightarrow> string" where
  "entry_id g = fst g"

definition entry_created :: "gateway_entry \<Rightarrow> datetime" where
  "entry_created g = fst (snd (snd g))"

definition entry_tag :: "gateway_entry \<Rightarrow> string option" where
  "entry_tag g = snd (snd (snd g))"

fun readings :: "gateway_entry list \<Rightarrow> nat" where
  "readings [] = 0"
| "readings (g # rest) = (if entry_tag g = None then 1 else 2) + readings rest"

text \<open>The delete requests for the records of a report whose inactivity reaches 45 minutes.\<close>

definition deletions :: "change list \<Rightarrow> call list" where
  "deletions cs = map (\<lambda>c. DeleteNatGateway (ch_gatewayId c))
                    (filter (\<lambda>c. ch_inactive c \<ge> minutes 45) cs)"

section \<open>Example worlds\<close>

text \<open>
  The worlds on which the theorems below are tried.  In \<open>base_world\<close> the network
  \<^verbatim>\<open>vpc-1\<close> has no gateway, one tagged address, two public subnets and three route
  tables: a tagged one without default route, a tagged one with a stale default route,
  and an untagged one.  The clock starts at 2024-01-01 00:00:00 and advances by one
  second at every reading; no call fails.
\<close>

definition t0 :: int where
  "t0 = 63839664000000000"

definition base_world :: world where
  "base_world =
     \<lparr>gateways = [],
      addresses = [\<lparr>addr_alloc = ''eipalloc-1'',
                    addr_tags = [(''Name'', ''OnDemandNAT-IPAddr''), (''ForVpc'', ''main'')]\<rparr>],
      subnets = [\<lparr>sn_id = ''subnet-a'', sn_vpc = ''vpc-1'', sn_tags = [(''Public'', ''Yes'')]\<rparr>,
                 \<lparr>sn_id = ''subnet-b'', sn_vpc = ''vpc-1'', sn_tags = [(''Public'', ''Yes'')]\<rparr>],
      route_tables =
        [\<lparr>rt_id = ''rtb-1'', rt_tags = [(''OnDemandNAT'', ''Yes'')], rt_routes = Map.empty\<rparr>,
         \<lparr>rt_id = ''rtb-2'', rt_tags = [(''OnDemandNAT'', ''True'')],
           rt_routes = [''0.0.0.0/0'' \<mapsto> ''nat-old'']\<rparr>,
         \<lparr>rt_id = ''rtb-3'', rt_tags = [], rt_routes = [''0.0.0.0/0'' \<mapsto> ''igw-1'']\<rparr>],
      environ = [''VPC_ID'' \<mapsto> ''vpc-1'', ''VPC_NAME'' \<mapsto> ''main''],
      clock = (\<lambda>n. t0 + int n * 1000000),
      ticks = 0,
      random = (\<lambda>n. n),
      draws = 0,
      new_ids = (\<lambda>n. ''nat-'' @ dec n),
      faults = (\<lambda>n. None),
      trace = []\<rparr>"

text \<open>
  Two gateways.  The first has no LastRequested tag and was created 45 minutes before
  the first clock reading; the second carries a tag written 45 minutes less one second
  before the reading that its inactivity is computed from (the third one).
\<close>

definition gw1 :: nat_gateway where
  "gw1 = \<lparr>gw_id = ''nat-a'', gw_state = ''available'', gw_vpc = ''vpc-1'',
          gw_created = \<lparr>dt_year = 2023, dt_month = 12, dt_day = 31, dt_hour = 23,
                         dt_minute = 15, dt_second = 0, dt_microsecond = 0,
                         dt_tzinfo = Some 0\<rparr>,
          gw_tags = []\<rparr>"

definition gw2 :: nat_gateway where
  "gw2 = \<lparr>gw_id = ''nat-b'', gw_state = ''pending'', gw_vpc = ''vpc-1'',
          gw_created = \<lparr>dt_year = 2023, dt_month = 12, dt_day = 31, dt_hour = 14,
                         dt_minute = 0, dt_second = 0, dt_microsecond = 0,
                         dt_tzinfo = Some 0\<rparr>,
          gw_tags = [(''LastRequested'', ''2023-12-31 23:15:03'')]\<rparr>"

definition two_gateways :: world where
  "two_gateways = base_world\<lparr>gateways := [gw1, gw2]\<rparr>"

definition ev0 :: event where
  "ev0 = \<lparr>ev_job = None, ev_records = Some [[''body'' \<mapsto> ''hello'']]\<rparr>"



text \<open>An event without \<^verbatim>\<open>'Records'\<close>.\<close>

definition ev_no_records :: event where
  "ev_no_records = \<lparr>ev_job = None, ev_records = None\<rparr>"

text \<open>Worlds without a tagged address, and without a public subnet.\<close>

definition no_address :: world where
  "no_address = base_world\<lparr>addresses := []\<rparr>"

definition no_subnets :: world where
  "no_subnets = base_world\<lparr>subnets := []\<rparr>"

text \<open>The calls that the route converger makes for the gateway \<open>g\<close>.\<close>

definition default_route_call :: "string \<Rightarrow> call \<Rightarrow> bool" where
  "default_route_call g c =
     (c = DescribeRouteTables [''Yes'', ''True'']
      \<or> (\<exists>t. c = DeleteRoute t ''0.0.0.0/0'')
      \<or> (\<exists>t. c = CreateRoute t ''0.0.0.0/0'' g))"

section \<open>Basic facts\<close>

lemma and_then_simps [simp]:
  "and_then (Inl e, w) f = (Inl e, w)"
  "and_then (Inr x, w) f = f x w"
  by (simp_all add: and_then_def)

lemma and_then_eq_Inr:
  "and_then r f = (Inr y, w') \<longleftrightarrow> (\<exists>x w1. r = (Inr x, w1) \<and> f x w1 = (Inr y, w'))"
  by (cases r; cases "fst r") (auto simp: and_then_def)

lemma and_then_eq_Inl:
  "and_then r f = (Inl e, w') \<longleftrightarrow>
     r = (Inl e, w') \<or> (\<exists>x w1. r = (Inr x, w1) \<and> f x w1 = (Inl e, w'))"
  by (cases r; cases "fst r") (auto simp: and_then_def)

lemma and_then_cases:
  assumes "and_then r f = (q, w')"
  obtains (fail) e where "r = (Inl e, w')" "q = Inl e"
        | (ok) x w1 where "r = (Inr x, w1)" "f x w1 = (q, w')"
  using assms by (cases r; cases "fst r") (auto simp: and_then_def)

lemma steps_refl [simp]: "steps P w w"
  by (simp add: steps_def)


lemma steps_mono: "steps P w w' \<Longrightarrow> (\<And>c. P c \<Longrightarrow> Q c) \<Longrightarrow> steps Q w w'"
  by (auto simp: steps_def list_all_iff)

lemma steps_calls: "steps P w w' \<Longrightarrow> trace w' = trace w @ calls_of w w' \<and> list_all P (calls_of w w')"
  by (auto simp: steps_def calls_of_def)

lemma issue_steps: "issue c w = (r, w') \<Longrightarrow> P c \<Longrightarrow> steps P w w'"
  by (auto simp: issue_def steps_def)

lemma issue_eq: "issue c w = (r, w') \<longleftrightarrow> r = faults w (length (trace w)) \<and> w' = w\<lparr>trace := trace w @ [c]\<rparr>"
  by (auto simp: issue_def)

















lemma trace_calls_of: "trace w' = trace w @ cs \<Longrightarrow> calls_of w w' = cs"
  by (simp add: calls_of_def)

lemma list_nat_gateways_result:
  "list_nat_gateways w = (r, w') \<Longrightarrow>
     (r = Inl (KeyError ''VPC_ID'') \<and> environ w ''VPC_ID'' = None \<and> w' = w)
     \<or> (\<exists>vpc. environ w ''VPC_ID'' = Some vpc
           \<and> w' = w\<lparr>trace := trace w @ [DescribeNatGateways [''pending'', ''available''] [vpc]]\<rparr>
           \<and> (case faults w (length (trace w)) of
                 Some e \<Rightarrow> r = Inl e
               | None \<Rightarrow>
                   r = (let m = filter (\<lambda>g. gw_state g \<in> set [''pending'', ''available'']
                                              \<and> gw_vpc g \<in> set [vpc]) (gateways w)
                        in if m = [] then Inr None
                           else Inr (Some (map (\<lambda>g. (gw_id g, gw_state g, gw_created g,
                                                       map_of (gw_tags g) ''LastRequested'')) m)))))"
  by (auto simp: list_nat_gateways_def getenv_def describe_nat_gateways_def issue_def Let_def
           split: option.splits)

lemma compute_inactivity_trace:
  "compute_inactivity created lr w = (r, w') \<Longrightarrow> trace w' = trace w \<and> faults w' = faults w \<and> gateways w' = gateways w \<and> route_tables w' = route_tables w \<and> clock w' = clock w"
  by (auto simp: compute_inactivity_def now_def utcnow_def split: sum.splits if_splits prod.splits)

lemma reap_result:
  "reap gid a i w = (r, w') \<Longrightarrow>
     trace w' = trace w @ (if i \<ge> minutes 45 then [DeleteNatGateway gid] else [])
     \<and> (\<forall>c. r = Inr c \<longrightarrow>
           c = \<lparr>ch_action = (if i \<ge> minutes 45 then ''deleted'' else ''skipped''),
                ch_gatewayId = gid, ch_age = a, ch_inactive = i\<rparr>)
     \<and> clock w' = clock w \<and> faults w' = faults w \<and> route_tables w' = route_tables w"
  by (auto simp: reap_def ec2_delete_nat_gateway_def issue_def and_then_def
           split: if_splits option.splits prod.splits sum.splits)

lemma invoke_lambda_result:
  "invoke_lambda body w = (r, w') \<Longrightarrow>
     w' = w\<lparr>trace := trace w @ [InvokeLambda ''afipApi'' body]\<rparr>
     \<and> r = (case faults w (length (trace w)) of Some e \<Rightarrow> Inl e | None \<Rightarrow> Inr ())"
  by (auto simp: invoke_lambda_def lambda_invoke_def issue_def split: option.splits)

section \<open>The check flow on an empty inventory\<close>

text \<open>
  C5.  When no gateway of the network is pending or available, the check flow returns
  \<^verbatim>\<open>None\<close> (no report, so no action list) and leaves the world as it was, but for
  the one call it made: the inventory query.  No gateway is deleted and the downstream
  function is not invoked.
\<close>

theorem check_empty_inventory_noop:
  assumes "environ w ''VPC_ID'' = Some vpc"
      and "faults w (length (trace w)) = None"
      and "filter (\<lambda>g. gw_state g \<in> set [''pending'', ''available''] \<and> gw_vpc g \<in> set [vpc])
             (gateways w) = []"
  shows "check_gateway_required ev w =
           (Inr None, w\<lparr>trace := trace w @ [DescribeNatGateways [''pending'', ''available''] [vpc]]\<rparr>)"
  using assms
  by (simp add: check_gateway_required_def list_nat_gateways_def getenv_def
        describe_nat_gateways_def issue_def check_inventory_def)

theorem check_empty_inventory_noop_witness:
  "check_gateway_required ev0 base_world
     = (Inr None,
        base_world\<lparr>trace := [DescribeNatGateways [''pending'', ''available''] [''vpc-1'']]\<rparr>)"
proof -
  have a: "environ base_world ''VPC_ID'' = Some ''vpc-1''"
    by (simp add: base_world_def)
  have b: "faults base_world (length (trace base_world)) = None"
    by (simp add: base_world_def)
  have c: "filter (\<lambda>g. gw_state g \<in> set [''pending'', ''available'']
                         \<and> gw_vpc g \<in> set [''vpc-1'']) (gateways base_world) = []"
    by (simp add: base_world_def)
  have "trace base_world = []"
    by (simp add: base_world_def)
  then show ?thesis
    using check_empty_inventory_noop[OF a b c, of ev0] by simp
qed

lemma from_micro_tzinfo [simp]: "dt_tzinfo (from_micro t tz) = tz"
  by (simp add: from_micro_def Let_def split: prod.splits)

lemma now_tzinfo: "dt_tzinfo (fst (now tz w)) = tz"
  by (simp add: now_def)

lemma compute_inactivity_untagged:
  "compute_inactivity created None w
     = (Inr (wall_micro (fst (now (dt_tzinfo created) w)) - wall_micro created,
             wall_micro (fst (now (dt_tzinfo created) w)) - wall_micro created),
        snd (now (dt_tzinfo created) w))"
proof -
  obtain t w1 where n: "now (dt_tzinfo created) w = (t, w1)"
    by (cases "now (dt_tzinfo created) w") auto
  have "dt_tzinfo t = dt_tzinfo created"
    using now_tzinfo[of "dt_tzinfo created" w] n by simp
  then have "dt_sub t created = Inr (wall_micro t - wall_micro created)"
    by (simp add: dt_sub_def)
  then show ?thesis
    by (simp add: compute_inactivity_def n)
qed

lemma compute_inactivity_tagged:
  "compute_inactivity created (Some s) w
     = (case isoparse s of
          Inl e \<Rightarrow> (Inl e, snd (utcnow (snd (now (dt_tzinfo created) w))))
        | Inr p \<Rightarrow>
            (case dt_sub (from_micro (clock w (Suc (ticks w))) None) p of
               Inl e \<Rightarrow> (Inl e, snd (utcnow (snd (now (dt_tzinfo created) w))))
             | Inr i \<Rightarrow> (Inr (wall_micro (fst (now (dt_tzinfo created) w)) - wall_micro created, i),
                         snd (utcnow (snd (now (dt_tzinfo created) w))))))"
proof -
  obtain t w1 where n: "now (dt_tzinfo created) w = (t, w1)"
    by (cases "now (dt_tzinfo created) w") auto
  obtain u w2 where u: "utcnow w1 = (u, w2)"
    by (cases "utcnow w1") auto
  have "dt_tzinfo t = dt_tzinfo created"
    using now_tzinfo[of "dt_tzinfo created" w] n by simp
  then have a: "dt_sub t created = Inr (wall_micro t - wall_micro created)"
    by (simp add: dt_sub_def)
  have b: "u = from_micro (clock w (Suc (ticks w))) None"
    using n u by (auto simp: now_def utcnow_def)
  show ?thesis
    by (simp add: compute_inactivity_def n u a b split: sum.splits)
qed

lemma dt_sub_same_zone: "dt_tzinfo a = dt_tzinfo b \<Longrightarrow> dt_sub a b = Inr (wall_micro a - wall_micro b)"
  by (simp add: dt_sub_def)

lemma utcnow_after_now:
  "fst (utcnow (snd (now tz w))) = from_micro (clock w (Suc (ticks w))) None"
  by (simp add: utcnow_def now_def)

section \<open>Relations that every statement keeps\<close>

lemma keepsD: "keeps R f \<Longrightarrow> f w = (r, w') \<Longrightarrow> R w w'"
  by (auto simp: keeps_def dest: spec[of _ w])

lemma keepsI: "(\<And>w r w'. f w = (r, w') \<Longrightarrow> R w w') \<Longrightarrow> keeps R f"
  by (auto simp: keeps_def intro: prod.collapse[symmetric])

lemma keeps_return: "reflp R \<Longrightarrow> keeps R (\<lambda>w. (x, w))"
  by (simp add: keeps_def reflp_def)

lemma keeps_and_then:
  assumes "transp R" and "keeps R f" and "\<And>x. keeps R (g x)"
  shows "keeps R (\<lambda>w. and_then (f w) g)"
proof (rule keepsI)
  fix w r w'
  assume "and_then (f w) g = (r, w')"
  then show "R w w'"
  proof (cases rule: and_then_cases)
    case (fail e)
    then show ?thesis using assms(2) by (auto dest: keepsD)
  next
    case (ok x w1)
    then have "R w w1" "R w1 w'"
      using assms(2,3) by (auto dest: keepsD)
    then show ?thesis using assms(1) by (auto dest: transpD)
  qed
qed

lemma keeps_pair:
  assumes "transp R" and "keeps R f" and "\<And>x. keeps R (g x)"
  shows "keeps R (\<lambda>w. case f w of (x, w1) \<Rightarrow> g x w1)"
proof (rule keepsI)
  fix w r w'
  assume a: "(case f w of (x, w1) \<Rightarrow> g x w1) = (r, w')"
  obtain x w1 where f: "f w = (x, w1)" by (cases "f w") auto
  with a have "g x w1 = (r, w')" by simp
  with f have "R w w1" "R w1 w'"
    using assms(2,3) by (auto dest: keepsD)
  then show "R w w'" using assms(1) by (auto dest: transpD)
qed

lemma keeps_getenv:
  assumes "reflp R" and "\<And>v. keeps R (g v)"
  shows "keeps R (\<lambda>w. case getenv k w of Inl e \<Rightarrow> (Inl e, w) | Inr v \<Rightarrow> g v w)"
  using assms by (auto simp: keeps_def reflp_def split: sum.splits)

lemma keeps_sum:
  assumes "reflp R" and "\<And>v. keeps R (g v)"
  shows "keeps R (\<lambda>w. case s of Inl e \<Rightarrow> (Inl e, w) | Inr v \<Rightarrow> g v w)"
  using assms by (auto simp: keeps_def reflp_def split: sum.splits)

lemma keeps_if:
  assumes "keeps R f" and "keeps R g"
  shows "keeps R (\<lambda>w. if b then f w else g w)"
  using assms by (auto simp: keeps_def)

lemma prims_refl: "prims R P \<Longrightarrow> reflp R" and prims_trans: "prims R P \<Longrightarrow> transp R"
  by (simp_all add: prims_def)

lemma keeps_list_nat_gateways:
  assumes "prims R P" and "\<And>c. inventory_call c \<Longrightarrow> P c"
  shows "keeps R list_nat_gateways"
  unfolding list_nat_gateways_def Let_def
  apply (intro keeps_getenv keeps_and_then keeps_if keeps_return prims_refl[OF assms(1)] prims_trans[OF assms(1)])
  using assms by (simp add: prims_def)

lemma keeps_create_nat_gateway:
  assumes "prims R P" and "\<And>c. provision_call c \<Longrightarrow> P c"
  shows "keeps R create_nat_gateway"
  unfolding create_nat_gateway_def Let_def
  apply (intro keeps_getenv keeps_and_then keeps_pair keeps_if keeps_return prims_refl[OF assms(1)] prims_trans[OF assms(1)])
  using assms by (simp_all add: prims_def)


lemma keeps_update_route_table:
  assumes "prims R P" and "\<And>c. converge_call c \<Longrightarrow> P c"
  shows "keeps R (update_route_table g t)"
proof -
  have d: "keeps R (ec2_delete_route t ''0.0.0.0/0'')" and c: "keeps R (ec2_create_route t ''0.0.0.0/0'' g)"
    using assms by (simp_all add: prims_def)
  show ?thesis
  proof (rule keepsI)
    fix w r w'
    assume a: "update_route_table g t w = (r, w')"
    obtain q w1 where dr: "ec2_delete_route t ''0.0.0.0/0'' w = (q, w1)"
      by (cases "ec2_delete_route t ''0.0.0.0/0'' w") auto
    have 1: "R w w1" using d dr by (rule keepsD)
    have "w' = w1 \<or> ec2_create_route t ''0.0.0.0/0'' g w1 = (r, w')"
      using a dr by (auto simp: update_route_table_def split: sum.splits error.splits if_splits)
    then show "R w w'"
    proof
      assume "w' = w1" then show ?thesis using 1 by simp
    next
      assume "ec2_create_route t ''0.0.0.0/0'' g w1 = (r, w')"
      then have "R w1 w'" using c by (auto dest: keepsD)
      with 1 show ?thesis using prims_trans[OF assms(1)] by (auto dest: transpD)
    qed
  qed
qed

lemma keeps_update_route_tables_loop:
  assumes "prims R P" and "\<And>c. converge_call c \<Longrightarrow> P c"
  shows "keeps R (update_route_tables_loop g ts)"
proof (induction ts)
  case Nil
  show ?case using prims_refl[OF assms(1)] by (simp add: keeps_def reflp_def)
next
  case (Cons t ts)
  have "keeps R (\<lambda>w. and_then (update_route_table g t w) (\<lambda>_ w. update_route_tables_loop g ts w))"
    by (intro keeps_and_then prims_trans[OF assms(1)] keeps_update_route_table[OF assms] Cons.IH)
  then show ?case by (simp add: keeps_def)
qed

lemma keeps_update_route_tables:
  assumes "prims R P" and "\<And>c. converge_call c \<Longrightarrow> P c"
  shows "keeps R (update_route_tables g)"
  unfolding update_route_tables_def
  apply (intro keeps_and_then prims_trans[OF assms(1)] keeps_update_route_tables_loop[OF assms])
  using assms by (simp add: prims_def)

lemma keeps_invoke_lambda:
  assumes "prims R P" and "\<And>c. is_invoke c \<Longrightarrow> P c"
  shows "keeps R (invoke_lambda body)"
  using assms by (simp add: prims_def invoke_lambda_def keeps_def)

lemma keeps_refresh_loop:
  assumes "prims R P" and "\<And>c. refresh_call c \<Longrightarrow> P c"
  shows "keeps R (refresh_loop gl)"
proof (induction gl)
  case Nil
  show ?case using prims_refl[OF assms(1)] by (simp add: keeps_def reflp_def)
next
  case (Cons g gl)
  obtain gid st created lr where g: "g = (gid, st, created, lr)" by (cases g) auto
  have "keeps R (\<lambda>w. case utcnow w of (stamp, w) \<Rightarrow>
          and_then (ec2_create_tags gid [(''LastRequested'', str_datetime stamp)] w)
            (\<lambda>_ w. refresh_loop gl w))"
    apply (intro keeps_pair keeps_and_then prims_trans[OF assms(1)] Cons.IH)
    using assms by (simp_all add: prims_def)
  then show ?case by (simp add: keeps_def g)
qed

lemma refresh_call_provision: "refresh_call c \<Longrightarrow> provision_call c"
  by (cases c) auto

lemma keeps_request_inventory:
  assumes "prims R P" and "\<And>c. provision_call c \<or> converge_call c \<Longrightarrow> P c"
  shows "keeps R (request_inventory gateway_list)"
  unfolding request_inventory_def Let_def
  by (intro keeps_if keeps_and_then keeps_return prims_refl[OF assms(1)] prims_trans[OF assms(1)]
        keeps_create_nat_gateway[OF assms(1)] keeps_update_route_tables[OF assms(1)]
        keeps_refresh_loop[OF assms(1)])
     (auto intro!: assms(2) dest: refresh_call_provision)

lemma keeps_request_inventory_Some:
  assumes "prims R P" and "\<And>c. refresh_call c \<Longrightarrow> P c"
  shows "keeps R (request_inventory (Some gl))"
  unfolding request_inventory_def Let_def
  apply simp
  by (intro keeps_and_then keeps_return prims_refl[OF assms(1)] prims_trans[OF assms(1)]
        keeps_refresh_loop[OF assms])

lemma keeps_request_main:
  assumes "prims R P" and "\<And>c. inventory_call c \<or> provision_call c \<or> converge_call c \<Longrightarrow> P c"
  shows "keeps R request_main"
  unfolding request_main_def
  by (intro keeps_and_then prims_trans[OF assms(1)] keeps_list_nat_gateways[OF assms(1)]
        keeps_request_inventory[OF assms(1)])
     (auto intro: assms(2))

lemma keeps_report_success:
  assumes "prims R P" and "\<And>c. job_call c \<Longrightarrow> P c"
  shows "keeps R (report_success ev)"
  using assms prims_refl[OF assms(1)]
  by (auto simp: report_success_def keeps_def prims_def reflp_def split: option.splits)

lemma keeps_report_failure:
  assumes "prims R P" and "\<And>c. job_call c \<Longrightarrow> P c"
  shows "keeps R (report_failure ev e)"
proof -
  have "\<And>jid m. keeps R (\<lambda>w. and_then (put_job_failure_result jid m w) (\<lambda>_ w. (Inl e, w)))"
    apply (intro keeps_and_then keeps_return prims_refl[OF assms(1)] prims_trans[OF assms(1)])
    using assms by (simp add: prims_def)
  then show ?thesis
    using prims_refl[OF assms(1)]
    by (auto simp: report_failure_def keeps_def reflp_def split: option.splits)
qed

lemma keeps_request_finish:
  assumes "prims R P" and "\<And>c. job_call c \<or> is_invoke c \<Longrightarrow> P c"
  shows "keeps R (request_finish ev info)"
  unfolding request_finish_def
  by (intro keeps_and_then keeps_sum keeps_return prims_refl[OF assms(1)] prims_trans[OF assms(1)]
        keeps_report_success[OF assms(1)] keeps_invoke_lambda[OF assms(1)])
     (auto intro: assms(2))

lemma keeps_request_try:
  assumes "prims R P"
    and "\<And>c. inventory_call c \<or> provision_call c \<or> converge_call c \<or> job_call c \<or> is_invoke c \<Longrightarrow> P c"
  shows "keeps R (request_try ev)"
  unfolding request_try_def
  by (intro keeps_and_then prims_trans[OF assms(1)]
        keeps_request_main[OF assms(1)] keeps_request_finish[OF assms(1)])
     (auto intro: assms(2))

lemma handler_cases:
  assumes "request_gateway_handler ev w = (r, w')"
  obtains (returned) info where "request_try ev w = (Inr info, w')" "r = Inr info"
        | (raised) e w1 where "request_try ev w = (Inl e, w1)" "report_failure ev e w1 = (r, w')"
  using assms
  by (cases "request_try ev w"; cases "fst (request_try ev w)")
     (auto simp: request_gateway_handler_def)

lemma keeps_request_gateway_handler:
  assumes "prims R P"
    and "\<And>c. inventory_call c \<or> provision_call c \<or> converge_call c \<or> job_call c \<or> is_invoke c \<Longrightarrow> P c"
  shows "keeps R (request_gateway_handler ev)"
proof (rule keepsI)
  fix w r w'
  assume a: "request_gateway_handler ev w = (r, w')"
  obtain q w1 where t: "request_try ev w = (q, w1)" by (cases "request_try ev w") auto
  have 1: "R w w1" using keeps_request_try[OF assms] t by (auto dest: keepsD)
  show "R w w'"
  proof (cases q)
    case (Inr info)
    then show ?thesis using a t 1 by (simp add: request_gateway_handler_def)
  next
    case (Inl e)
    then have "report_failure ev e w1 = (r, w')"
      using a t by (simp add: request_gateway_handler_def)
    then have "R w1 w'"
      using keeps_report_failure[OF assms(1), of ev e] assms(2) by (auto dest: keepsD)
    with 1 show ?thesis using prims_trans[OF assms(1)] by (auto dest: transpD)
  qed
qed

lemma keeps_compute_inactivity:
  assumes "prims R P"
  shows "keeps R (compute_inactivity created lr)"
  unfolding compute_inactivity_def
  apply (intro keeps_pair keeps_sum keeps_if keeps_return prims_refl[OF assms(1)] prims_trans[OF assms(1)])
  using assms by (simp_all add: prims_def)

lemma keeps_reap:
  assumes "prims R P" and "\<And>c. is_delete_gateway c \<Longrightarrow> P c"
  shows "keeps R (reap gid a i)"
  unfolding reap_def
  apply (intro keeps_if keeps_and_then keeps_return prims_refl[OF assms(1)] prims_trans[OF assms(1)])
  using assms by (simp add: prims_def)

lemma keeps_check_loop:
  assumes "prims R P" and "\<And>c. is_delete_gateway c \<Longrightarrow> P c"
  shows "keeps R (check_loop gl acc)"
proof (induction gl arbitrary: acc)
  case Nil
  show ?case using prims_refl[OF assms(1)] by (simp add: keeps_def reflp_def)
next
  case (Cons g gl)
  obtain gid st created lr where g: "g = (gid, st, created, lr)" by (cases g) auto
  have "keeps R (\<lambda>w. and_then (compute_inactivity created lr w)
          (\<lambda>x w. case x of (a, i) \<Rightarrow> and_then (reap gid a i w) (\<lambda>c w. check_loop gl (acc @ [c]) w)))"
    apply (intro keeps_and_then prims_trans[OF assms(1)] keeps_compute_inactivity[OF assms(1)])
    subgoal for x
      by (cases x) (auto intro!: keeps_and_then prims_trans[OF assms(1)] keeps_reap[OF assms] Cons.IH)
    done
  then show ?case by (simp add: keeps_def g case_prod_unfold)
qed

lemma keeps_check_inventory:
  assumes "prims R P" and "\<And>c. is_delete_gateway c \<or> is_invoke c \<Longrightarrow> P c"
  shows "keeps R (check_inventory ev gateway_list)"
  unfolding check_inventory_def Let_def
  by (intro keeps_if keeps_and_then keeps_sum keeps_return prims_refl[OF assms(1)] prims_trans[OF assms(1)]
        keeps_check_loop[OF assms(1)] keeps_invoke_lambda[OF assms(1)])
     (auto intro: assms(2))

lemma keeps_check_gateway_required:
  assumes "prims R P" and "\<And>c. inventory_call c \<or> is_delete_gateway c \<or> is_invoke c \<Longrightarrow> P c"
  shows "keeps R (check_gateway_required ev)"
  unfolding check_gateway_required_def
  by (intro keeps_and_then prims_trans[OF assms(1)] keeps_list_nat_gateways[OF assms(1)]
        keeps_check_inventory[OF assms(1)])
     (auto intro: assms(2))




lemma prims_route_tables:
  "prims (\<lambda>w w'. route_tables w' = route_tables w) (\<lambda>c. \<not> is_route_call c)"
  unfolding prims_def
  apply (intro conjI allI impI keepsI)
                  apply (simp add: reflp_def)
                 apply (simp add: transp_def)
                apply (auto simp: utcnow_def now_def random_choice_def describe_nat_gateways_def
      describe_addresses_def describe_subnets_def describe_route_tables_def
      ec2_create_nat_gateway_def ec2_create_tags_def wait_nat_gateway_available_def
      ec2_delete_nat_gateway_def lambda_invoke_def put_job_success_result_def
      put_job_failure_result_def issue_def Let_def
      split: option.splits if_splits)
  done

lemma handler_nonempty:
  assumes "prims R P"
    and "\<And>c. inventory_call c \<or> refresh_call c \<or> job_call c \<or> is_invoke c \<Longrightarrow> P c"
    and l: "list_nat_gateways w = (Inr (Some gl), wl)"
    and h: "request_gateway_handler ev w = (r, w')"
  shows "R w w'"
proof -
  note tr = transpD[OF prims_trans[OF assms(1)]]
  have 1: "R w wl"
    using keeps_list_nat_gateways[OF assms(1)] assms(2) l by (auto dest: keepsD)
  have t: "request_try ev w = and_then (request_inventory (Some gl) wl) (request_finish ev)"
    by (simp add: request_try_def request_main_def l and_then_def split: prod.splits sum.splits)
  have ki: "keeps R (request_inventory (Some gl))"
    using keeps_request_inventory_Some[OF assms(1)] assms(2) by blast
  have kf: "\<And>info. keeps R (request_finish ev info)"
    using keeps_request_finish[OF assms(1)] assms(2) by blast
  have kt: "keeps R (\<lambda>w. and_then (request_inventory (Some gl) w) (request_finish ev))"
    by (intro keeps_and_then prims_trans[OF assms(1)] ki kf)
  have kr: "\<And>e. keeps R (report_failure ev e)"
    using keeps_report_failure[OF assms(1)] assms(2) by blast
  from h show ?thesis
  proof (cases rule: handler_cases)
    case (returned info)
    then have "R wl w'" using kt t by (auto dest: keepsD)
    with 1 show ?thesis by (rule tr)
  next
    case (raised e w1)
    then have "R wl w1" "R w1 w'" using kt t kr by (auto dest: keepsD)
    with 1 show ?thesis by (blast intro: tr)
  qed
qed

section \<open>The inventory and its sentinel\<close>




section \<open>Failures of the request flow\<close>



lemma compute_inactivity_reads:
  assumes "clock wa = clock wb" and "ticks wa = ticks wb"
  shows "fst (compute_inactivity created lr wa) = fst (compute_inactivity created lr wb)"
proof (cases lr)
  case None
  then show ?thesis
    using assms by (simp add: compute_inactivity_untagged now_def)
next
  case (Some s)
  then show ?thesis
    using assms by (simp add: compute_inactivity_tagged now_def split: sum.splits)
qed

lemma compute_inactivity_effect:
  assumes "compute_inactivity created lr w = (Inr (a, i), w1)"
  shows "trace w1 = trace w \<and> clock w1 = clock w
         \<and> ticks w1 = ticks w + (if lr = None then 1 else 2)"
proof (cases lr)
  case None
  then show ?thesis
    using assms by (auto simp: compute_inactivity_untagged now_def)
next
  case (Some s)
  then show ?thesis
    using assms by (auto simp: compute_inactivity_tagged now_def utcnow_def split: sum.splits)
qed

lemma reap_ticks: "reap gid a i w = (r, w') \<Longrightarrow> ticks w' = ticks w"
  by (auto simp: reap_def ec2_delete_nat_gateway_def issue_def and_then_def
           split: if_splits option.splits prod.splits sum.splits)

lemma world_ticks_same [simp]: "w\<lparr>ticks := ticks w\<rparr> = w"
  by simp

lemma check_loop_run:
  assumes "check_loop gl acc w = (q, w')"
  shows "\<exists>done. length done \<le> length gl
    \<and> (\<forall>k < length done.
          ch_gatewayId (done ! k) = entry_id (gl ! k)
          \<and> fst (compute_inactivity (entry_created (gl ! k)) (entry_tag (gl ! k))
                   (w\<lparr>ticks := ticks w + readings (take k gl)\<rparr>))
              = Inr (ch_age (done ! k), ch_inactive (done ! k))
          \<and> ch_action (done ! k)
              = (if ch_inactive (done ! k) \<ge> minutes 45 then ''deleted'' else ''skipped''))
    \<and> ((q = Inr (acc @ done) \<and> length done = length gl \<and> calls_of w w' = deletions done)
        \<or> (length done < length gl
            \<and> (\<exists>e. q = Inl e
                 \<and> ((fst (compute_inactivity (entry_created (gl ! length done))
                            (entry_tag (gl ! length done))
                            (w\<lparr>ticks := ticks w + readings (take (length done) gl)\<rparr>)) = Inl e
                      \<and> calls_of w w' = deletions done)
                     \<or> (\<exists>a i. fst (compute_inactivity (entry_created (gl ! length done))
                                    (entry_tag (gl ! length done))
                                    (w\<lparr>ticks := ticks w + readings (take (length done) gl)\<rparr>))
                                = Inr (a, i)
                              \<and> i \<ge> minutes 45
                              \<and> calls_of w w' = deletions done @ [DeleteNatGateway (entry_id (gl ! length done))])))))
    \<and> clock w' = clock w \<and> trace w' = trace w @ calls_of w w'"
  using assms
proof (induction gl arbitrary: acc w q w')
  case Nil
  then show ?case
    by (intro exI[of _ "[]"]) (simp add: calls_of_def deletions_def)
next
  case (Cons g gl)
  obtain gid st created lr where g: "g = (gid, st, created, lr)"
    by (cases g) auto
  have eg: "entry_id g = gid" "entry_created g = created" "entry_tag g = lr"
    by (simp_all add: g entry_id_def entry_created_def entry_tag_def)
  obtain ci w1 where ci: "compute_inactivity created lr w = (ci, w1)"
    by (cases "compute_inactivity created lr w") auto
  note fr1 = compute_inactivity_trace[OF ci]
  show ?case
  proof (cases ci)
    case (Inl e)
    then have q: "q = Inl e" "w' = w1"
      using Cons.prems ci by (simp_all add: g)
    show ?thesis
      apply (intro exI[of _ "[]"])
      using q fr1 ci Inl by (simp add: calls_of_def deletions_def eg)
  next
    case (Inr ai)
    obtain a i where ai: "ai = (a, i)" by (cases ai) auto
    have ci': "compute_inactivity created lr w = (Inr (a, i), w1)"
      using ci Inr ai by simp
    note ef = compute_inactivity_effect[OF ci']
    obtain rq w2 where rp: "reap gid a i w1 = (rq, w2)"
      by (cases "reap gid a i w1") auto
    note rr = reap_result[OF rp] and rt = reap_ticks[OF rp]
    have tr2: "trace w2 = trace w @ (if i \<ge> minutes 45 then [DeleteNatGateway gid] else [])"
      using rr ef by simp
    show ?thesis
    proof (cases rq)
      case (Inl e)
      then have q: "q = Inl e" "w' = w2"
        using Cons.prems ci' rp by (simp_all add: g)
      have big: "i \<ge> minutes 45"
        using rp Inl by (auto simp: reap_def split: if_splits)
      show ?thesis
        apply (intro exI[of _ "[]"])
        using q tr2 big ci' rr ef by (simp add: calls_of_def deletions_def eg)
    next
      case (Inr c)
      then have c: "c = \<lparr>ch_action = (if i \<ge> minutes 45 then ''deleted'' else ''skipped''),
                         ch_gatewayId = gid, ch_age = a, ch_inactive = i\<rparr>"
        using rr by simp
      have rest: "check_loop gl (acc @ [c]) w2 = (q, w')"
        using Cons.prems ci' rp Inr by (simp add: g)
      from Cons.IH[OF rest] obtain done' where
        len: "length done' \<le> length gl"
        and rec: "\<forall>k < length done'.
          ch_gatewayId (done' ! k) = entry_id (gl ! k)
          \<and> fst (compute_inactivity (entry_created (gl ! k)) (entry_tag (gl ! k))
                   (w2\<lparr>ticks := ticks w2 + readings (take k gl)\<rparr>))
              = Inr (ch_age (done' ! k), ch_inactive (done' ! k))
          \<and> ch_action (done' ! k)
              = (if ch_inactive (done' ! k) \<ge> minutes 45 then ''deleted'' else ''skipped'')"
        and out: "(q = Inr ((acc @ [c]) @ done') \<and> length done' = length gl
                    \<and> calls_of w2 w' = deletions done')
          \<or> (length done' < length gl
            \<and> (\<exists>e. q = Inl e
                 \<and> ((fst (compute_inactivity (entry_created (gl ! length done'))
                            (entry_tag (gl ! length done'))
                            (w2\<lparr>ticks := ticks w2 + readings (take (length done') gl)\<rparr>)) = Inl e
                      \<and> calls_of w2 w' = deletions done')
                     \<or> (\<exists>a i. fst (compute_inactivity (entry_created (gl ! length done'))
                                    (entry_tag (gl ! length done'))
                                    (w2\<lparr>ticks := ticks w2 + readings (take (length done') gl)\<rparr>))
                                = Inr (a, i)
                              \<and> i \<ge> minutes 45
                              \<and> calls_of w2 w' = deletions done' @ [DeleteNatGateway (entry_id (gl ! length done'))]))))"
        and cl: "clock w' = clock w2" and tr: "trace w' = trace w2 @ calls_of w2 w'"
        by blast
      have t2: "ticks w2 = ticks w + (if lr = None then 1 else 2)" and c2: "clock w2 = clock w"
        using ef rt rr by simp_all
      have same: "fst (compute_inactivity cr tg (w2\<lparr>ticks := ticks w2 + readings (take k gl)\<rparr>))
                  = fst (compute_inactivity cr tg (w\<lparr>ticks := ticks w + readings (take (Suc k) (g # gl))\<rparr>))"
        for cr tg k
        by (rule compute_inactivity_reads) (simp_all add: t2 c2 eg)
      have "trace w' = trace w @ ((if i \<ge> minutes 45 then [DeleteNatGateway gid] else []) @ calls_of w2 w')"
        using tr tr2 by simp
      then have "calls_of w w' = (if i \<ge> minutes 45 then [DeleteNatGateway gid] else []) @ calls_of w2 w'"
        by (rule trace_calls_of)
      then have calls: "calls_of w w' = deletions [c] @ calls_of w2 w'"
        by (simp add: deletions_def c)
      have d: "deletions (c # xs) = deletions [c] @ deletions xs" for xs
        by (simp add: deletions_def)
      let ?done = "c # done'"
      have 1: "length ?done \<le> length (g # gl)" using len by simp
      have 2: "\<forall>k < length ?done.
          ch_gatewayId (?done ! k) = entry_id ((g # gl) ! k)
          \<and> fst (compute_inactivity (entry_created ((g # gl) ! k)) (entry_tag ((g # gl) ! k))
                   (w\<lparr>ticks := ticks w + readings (take k (g # gl))\<rparr>))
              = Inr (ch_age (?done ! k), ch_inactive (?done ! k))
          \<and> ch_action (?done ! k)
              = (if ch_inactive (?done ! k) \<ge> minutes 45 then ''deleted'' else ''skipped'')"
      proof (intro allI impI)
        fix k assume k: "k < length ?done"
        show "ch_gatewayId (?done ! k) = entry_id ((g # gl) ! k)
          \<and> fst (compute_inactivity (entry_created ((g # gl) ! k)) (entry_tag ((g # gl) ! k))
                   (w\<lparr>ticks := ticks w + readings (take k (g # gl))\<rparr>))
              = Inr (ch_age (?done ! k), ch_inactive (?done ! k))
          \<and> ch_action (?done ! k)
              = (if ch_inactive (?done ! k) \<ge> minutes 45 then ''deleted'' else ''skipped'')"
        proof (cases k)
          case 0
          then show ?thesis using ci' by (simp add: eg c)
        next
          case (Suc j)
          then have "j < length done'" using k by simp
          from rec[unfolded same] this show ?thesis
            by (simp add: Suc del: readings.simps take_Suc_Cons)
        qed
      qed
      have 3: "(q = Inr (acc @ ?done) \<and> length ?done = length (g # gl)
                  \<and> calls_of w w' = deletions ?done)
        \<or> (length ?done < length (g # gl)
            \<and> (\<exists>e. q = Inl e
                 \<and> ((fst (compute_inactivity (entry_created ((g # gl) ! length ?done))
                            (entry_tag ((g # gl) ! length ?done))
                            (w\<lparr>ticks := ticks w + readings (take (length ?done) (g # gl))\<rparr>)) = Inl e
                      \<and> calls_of w w' = deletions ?done)
                     \<or> (\<exists>a i. fst (compute_inactivity (entry_created ((g # gl) ! length ?done))
                                    (entry_tag ((g # gl) ! length ?done))
                                    (w\<lparr>ticks := ticks w + readings (take (length ?done) (g # gl))\<rparr>))
                                = Inr (a, i)
                              \<and> i \<ge> minutes 45
                              \<and> calls_of w w' = deletions ?done @ [DeleteNatGateway (entry_id ((g # gl) ! length ?done))]))))"
        using out[unfolded same]
        by (auto simp: calls d[of done'] simp del: readings.simps take_Suc_Cons)
      have 4: "clock w' = clock w \<and> trace w' = trace w @ calls_of w w'"
        using cl c2 tr tr2 calls by (simp add: deletions_def c)
      from 1 2 3 4 show ?thesis by blast
    qed
  qed
qed

lemma filter_deletions [simp]: "filter is_delete_gateway (deletions cs) = deletions cs"
  by (induction cs) (auto simp: deletions_def)

lemma check_inventory_run:
  assumes "check_inventory ev (Some gl) wl = (r, w')"
  shows "\<exists>q w2. check_loop gl [] wl = (q, w2)
           \<and> ((\<exists>e. q = Inl e \<and> r = Inl e \<and> w' = w2)
               \<or> (\<exists>cs. q = Inr cs
                     \<and> (r = Inr (Some \<lparr>nat_changed = cs\<rparr>) \<or> (\<exists>e. r = Inl e))
                     \<and> (\<exists>ex. trace w' = trace w2 @ ex \<and> list_all is_invoke ex)))"
proof -
  obtain q w2 where l: "check_loop gl [] wl = (q, w2)"
    by (cases "check_loop gl [] wl") auto
  show ?thesis
  proof (cases q)
    case (Inl e)
    then show ?thesis using assms l by (simp add: check_inventory_def)
  next
    case (Inr cs)
    show ?thesis
    proof (cases "event_body ev")
      case (Inl e)
      then have "r = Inl e" "w' = w2"
        using assms l Inr by (simp_all add: check_inventory_def)
      then show ?thesis using l Inr by auto
    next
      case b: (Inr body)
      obtain u w3 where i: "invoke_lambda body w2 = (u, w3)"
        by (cases "invoke_lambda body w2") auto
      from invoke_lambda_result[OF i]
      have "trace w3 = trace w2 @ [InvokeLambda ''afipApi'' body]"
        by simp
      moreover have "w' = w3 \<and> (r = Inr (Some \<lparr>nat_changed = cs\<rparr>) \<or> (\<exists>e. r = Inl e))"
        using assms l Inr b i by (cases u) (auto simp: check_inventory_def)
      ultimately show ?thesis using l Inr by auto
    qed
  qed
qed

section \<open>The reaper's threshold\<close>

text \<open>
  C1.  Take any run of the check flow, whatever its outcome, in which the inventory
  query returned the list \<open>gl\<close> and left the world \<open>wl\<close>.  The gateways are processed in
  the order of the list, and \<open>done\<close> holds the records of those that were processed to
  the end.  The record of the \<open>k\<close>-th gateway carries its identity and the inactivity
  computed for it (from its creation time and tag, at the clock readings that follow
  those of the gateways before it); its action is \<^verbatim>\<open>deleted\<close> when that inactivity is
  at least 45 minutes and \<^verbatim>\<open>skipped\<close> when it is less.  If every gateway was processed,
  the delete requests of the run are exactly those for the records with an inactivity of
  at least 45 minutes, and a report that is returned is the list of the records.
  Otherwise the run raised at the next gateway: either its inactivity could not be
  computed, and no request was made for it, or its inactivity was at least 45 minutes and
  the delete request made for it failed.  A run without inventory makes no delete
  request.  So the boundary is inclusive, and nothing but the computed inactivity
  decides.
\<close>

theorem reaper_threshold:
  assumes "check_gateway_required ev w = (r, w')"
  shows "(\<forall>gl wl. list_nat_gateways w = (Inr (Some gl), wl) \<longrightarrow>
            (\<exists>done. length done \<le> length gl
               \<and> (\<forall>k < length done.
                     ch_gatewayId (done ! k) = entry_id (gl ! k)
                     \<and> fst (compute_inactivity (entry_created (gl ! k)) (entry_tag (gl ! k))
                              (wl\<lparr>ticks := ticks wl + readings (take k gl)\<rparr>))
                         = Inr (ch_age (done ! k), ch_inactive (done ! k))
                     \<and> ch_action (done ! k)
                         = (if ch_inactive (done ! k) \<ge> minutes 45 then ''deleted'' else ''skipped''))
               \<and> ((length done = length gl
                    \<and> filter is_delete_gateway (calls_of w w') = deletions done
                    \<and> (r = Inr (Some \<lparr>nat_changed = done\<rparr>) \<or> (\<exists>e. r = Inl e)))
                   \<or> (length done < length gl
                       \<and> (\<exists>e. r = Inl e
                            \<and> ((fst (compute_inactivity (entry_created (gl ! length done))
                                       (entry_tag (gl ! length done))
                                       (wl\<lparr>ticks := ticks wl + readings (take (length done) gl)\<rparr>))
                                   = Inl e
                                 \<and> filter is_delete_gateway (calls_of w w') = deletions done)
                                \<or> (\<exists>a i. fst (compute_inactivity (entry_created (gl ! length done))
                                               (entry_tag (gl ! length done))
                                               (wl\<lparr>ticks := ticks wl + readings (take (length done) gl)\<rparr>))
                                           = Inr (a, i)
                                         \<and> i \<ge> minutes 45
                                         \<and> filter is_delete_gateway (calls_of w w')
                                             = deletions done
                                               @ [DeleteNatGateway (entry_id (gl ! length done))])))))))
       \<and> ((\<forall>gl wl. list_nat_gateways w \<noteq> (Inr (Some gl), wl)) \<longrightarrow>
            filter is_delete_gateway (calls_of w w') = [])"
proof (intro conjI allI impI)
  fix gl wl
  assume l: "list_nat_gateways w = (Inr (Some gl), wl)"
  then have ci: "check_inventory ev (Some gl) wl = (r, w')"
    using assms by (simp add: check_gateway_required_def)
  from list_nat_gateways_result[OF l] obtain vpc where
    wl: "trace wl = trace w @ [DescribeNatGateways [''pending'', ''available''] [vpc]]"
    by auto
  from check_inventory_run[OF ci] obtain q w2 where
    loop: "check_loop gl [] wl = (q, w2)"
    and out: "(\<exists>e. q = Inl e \<and> r = Inl e \<and> w' = w2)
               \<or> (\<exists>cs. q = Inr cs
                     \<and> (r = Inr (Some \<lparr>nat_changed = cs\<rparr>) \<or> (\<exists>e. r = Inl e))
                     \<and> (\<exists>ex. trace w' = trace w2 @ ex \<and> list_all is_invoke ex))"
    by blast
  from check_loop_run[OF loop] obtain "done" where
    len: "length done \<le> length gl"
    and rec: "\<forall>k < length done.
          ch_gatewayId (done ! k) = entry_id (gl ! k)
          \<and> fst (compute_inactivity (entry_created (gl ! k)) (entry_tag (gl ! k))
                   (wl\<lparr>ticks := ticks wl + readings (take k gl)\<rparr>))
              = Inr (ch_age (done ! k), ch_inactive (done ! k))
          \<and> ch_action (done ! k)
              = (if ch_inactive (done ! k) \<ge> minutes 45 then ''deleted'' else ''skipped'')"
    and res: "(q = Inr ([] @ done) \<and> length done = length gl \<and> calls_of wl w2 = deletions done)
        \<or> (length done < length gl
            \<and> (\<exists>e. q = Inl e
                 \<and> ((fst (compute_inactivity (entry_created (gl ! length done))
                            (entry_tag (gl ! length done))
                            (wl\<lparr>ticks := ticks wl + readings (take (length done) gl)\<rparr>)) = Inl e
                      \<and> calls_of wl w2 = deletions done)
                     \<or> (\<exists>a i. fst (compute_inactivity (entry_created (gl ! length done))
                                    (entry_tag (gl ! length done))
                                    (wl\<lparr>ticks := ticks wl + readings (take (length done) gl)\<rparr>))
                                = Inr (a, i)
                              \<and> i \<ge> minutes 45
                              \<and> calls_of wl w2 = deletions done @ [DeleteNatGateway (entry_id (gl ! length done))]))))"
    and tr2: "trace w2 = trace wl @ calls_of wl w2"
    by blast
  from out obtain ex where ex: "trace w' = trace w2 @ ex" "list_all is_invoke ex"
    by auto
  have "trace w' = trace w @ ([DescribeNatGateways [''pending'', ''available''] [vpc]]
                              @ calls_of wl w2 @ ex)"
    using ex tr2 wl by simp
  then have "calls_of w w' = [DescribeNatGateways [''pending'', ''available''] [vpc]]
                              @ calls_of wl w2 @ ex"
    by (rule trace_calls_of)
  moreover have "filter is_delete_gateway ex = []"
    using ex(2) by (induction ex) (auto elim: is_invoke.elims)
  ultimately have f: "filter is_delete_gateway (calls_of w w')
                        = filter is_delete_gateway (calls_of wl w2)"
    by simp
  show "\<exists>done. length done \<le> length gl
               \<and> (\<forall>k < length done.
                     ch_gatewayId (done ! k) = entry_id (gl ! k)
                     \<and> fst (compute_inactivity (entry_created (gl ! k)) (entry_tag (gl ! k))
                              (wl\<lparr>ticks := ticks wl + readings (take k gl)\<rparr>))
                         = Inr (ch_age (done ! k), ch_inactive (done ! k))
                     \<and> ch_action (done ! k)
                         = (if ch_inactive (done ! k) \<ge> minutes 45 then ''deleted'' else ''skipped''))
               \<and> ((length done = length gl
                    \<and> filter is_delete_gateway (calls_of w w') = deletions done
                    \<and> (r = Inr (Some \<lparr>nat_changed = done\<rparr>) \<or> (\<exists>e. r = Inl e)))
                   \<or> (length done < length gl
                       \<and> (\<exists>e. r = Inl e
                            \<and> ((fst (compute_inactivity (entry_created (gl ! length done))
                                       (entry_tag (gl ! length done))
                                       (wl\<lparr>ticks := ticks wl + readings (take (length done) gl)\<rparr>))
                                   = Inl e
                                 \<and> filter is_delete_gateway (calls_of w w') = deletions done)
                                \<or> (\<exists>a i. fst (compute_inactivity (entry_created (gl ! length done))
                                               (entry_tag (gl ! length done))
                                               (wl\<lparr>ticks := ticks wl + readings (take (length done) gl)\<rparr>))
                                           = Inr (a, i)
                                         \<and> i \<ge> minutes 45
                                         \<and> filter is_delete_gateway (calls_of w w')
                                             = deletions done
                                               @ [DeleteNatGateway (entry_id (gl ! length done))])))))"
    apply (rule exI[of _ "done"])
    apply (intro conjI len rec)
    using res out by (auto simp: f)
next
  assume none: "\<forall>gl wl. list_nat_gateways w \<noteq> (Inr (Some gl), wl)"
  obtain q wl where l: "list_nat_gateways w = (q, wl)"
    by (cases "list_nat_gateways w") auto
  have "w' = wl"
  proof (cases q)
    case (Inl e)
    then show ?thesis using assms l by (simp add: check_gateway_required_def)
  next
    case (Inr opt)
    then have "opt = None" using none l by (cases opt) auto
    then show ?thesis using assms l Inr by (simp add: check_gateway_required_def check_inventory_def)
  qed
  moreover from list_nat_gateways_result[OF l]
  have "calls_of w wl = [] \<or> (\<exists>vpc. calls_of w wl = [DescribeNatGateways [''pending'', ''available''] [vpc]])"
    by (auto simp: calls_of_def)
  ultimately show "filter is_delete_gateway (calls_of w w') = []"
    by auto
qed

theorem reaper_threshold_witness:
  "check_gateway_required ev0 two_gateways
     = (Inr (Some \<lparr>nat_changed =
           [\<lparr>ch_action = ''deleted'', ch_gatewayId = ''nat-a'',
              ch_age = minutes 45, ch_inactive = minutes 45\<rparr>,
            \<lparr>ch_action = ''skipped'', ch_gatewayId = ''nat-b'',
              ch_age = minutes 600 + 1000000, ch_inactive = minutes 45 - 1000000\<rparr>]\<rparr>),
        snd (check_gateway_required ev0 two_gateways))
   \<and> list_nat_gateways two_gateways
        = (Inr (Some [(''nat-a'', ''available'', gw_created gw1, None),
                      (''nat-b'', ''pending'', gw_created gw2, Some ''2023-12-31 23:15:03'')]),
           snd (list_nat_gateways two_gateways))
   \<and> filter is_delete_gateway
        (calls_of two_gateways (snd (check_gateway_required ev0 two_gateways)))
      = [DeleteNatGateway ''nat-a'']
   \<and> filter is_delete_gateway
        (calls_of two_gateways (snd (check_gateway_required ev_no_records two_gateways)))
      = [DeleteNatGateway ''nat-a'']"
proof -
  let ?cs = "[\<lparr>ch_action = ''deleted'', ch_gatewayId = ''nat-a'',
              ch_age = minutes 45, ch_inactive = minutes 45\<rparr>,
            \<lparr>ch_action = ''skipped'', ch_gatewayId = ''nat-b'',
              ch_age = minutes 600 + 1000000, ch_inactive = minutes 45 - 1000000\<rparr>]"
  let ?gl = "[(''nat-a'', ''available'', gw_created gw1, None),
              (''nat-b'', ''pending'', gw_created gw2, Some ''2023-12-31 23:15:03'')]"
  let ?w' = "snd (check_gateway_required ev0 two_gateways)"
  have "fst (check_gateway_required ev0 two_gateways) = Inr (Some \<lparr>nat_changed = ?cs\<rparr>)"
    by code_simp
  then have h: "check_gateway_required ev0 two_gateways = (Inr (Some \<lparr>nat_changed = ?cs\<rparr>), ?w')"
    by (simp add: prod_eq_iff)
  have "fst (list_nat_gateways two_gateways) = Inr (Some ?gl)"
    by code_simp
  then have l: "list_nat_gateways two_gateways = (Inr (Some ?gl), snd (list_nat_gateways two_gateways))"
    by (simp add: prod_eq_iff)
  from reaper_threshold[OF h] l obtain "done" where
    "(length done = length ?gl
        \<and> filter is_delete_gateway (calls_of two_gateways ?w') = deletions done
        \<and> (Inr (Some \<lparr>nat_changed = ?cs\<rparr>) = (Inr (Some \<lparr>nat_changed = done\<rparr>) :: error + check_info option)
            \<or> (\<exists>e. (Inr (Some \<lparr>nat_changed = ?cs\<rparr>) :: error + check_info option) = Inl e)))
     \<or> (length done < length ?gl
        \<and> (\<exists>e. (Inr (Some \<lparr>nat_changed = ?cs\<rparr>) :: error + check_info option) = Inl e))"
    by blast
  then have "filter is_delete_gateway (calls_of two_gateways ?w') = deletions ?cs"
    by auto
  then have d: "filter is_delete_gateway (calls_of two_gateways ?w') = [DeleteNatGateway ''nat-a'']"
    by (simp add: deletions_def minutes_def)
  have nd: "filter is_delete_gateway
        (calls_of two_gateways (snd (check_gateway_required ev_no_records two_gateways)))
      = [DeleteNatGateway ''nat-a'']"
    by code_simp
  from h l d nd show ?thesis by blast
qed

lemma check_flow_report:
  assumes "list_nat_gateways w = (Inr (Some gl), wl)"
    and "check_gateway_required ev w = (Inr (Some info), w')"
  shows "\<exists>w2. check_loop gl [] wl = (Inr (nat_changed info), w2)"
proof -
  have "check_inventory ev (Some gl) wl = (Inr (Some info), w')"
    using assms by (simp add: check_gateway_required_def)
  from check_inventory_run[OF this] show ?thesis
    by auto
qed

section \<open>The inactivity of a gateway\<close>

text \<open>
  C3.  For a gateway without LastRequested tag the computed inactivity is its age: the
  reading of \<^verbatim>\<open>datetime.now\<close> in the zone of the creation time, minus the creation
  time.  With a tag, whenever an inactivity is computed it is the reading of
  \<^verbatim>\<open>datetime.utcnow\<close> (the second clock reading of the computation) minus the parsed
  tag; and for a tag that parses to a naive datetime it is computed, with the same value
  whatever the creation time is.  The check flow computes the inactivity of every
  gateway it processes in this way: the entries of the inventory carry the creation time
  and the tag of the gateways, the loop takes them in order, and the record of the
  \<open>k\<close>-th gateway holds the age and the inactivity computed from its creation time and tag
  at the clock readings that follow those made for the gateways before it.
\<close>

theorem inactivity_fallback:
  "fst (compute_inactivity created None w)
     = Inr (wall_micro (fst (now (dt_tzinfo created) w)) - wall_micro created,
            wall_micro (fst (now (dt_tzinfo created) w)) - wall_micro created)
   \<and> (\<forall>a i. fst (compute_inactivity created (Some s) w) = Inr (a, i) \<longrightarrow>
          (\<exists>p. isoparse s = Inr p
             \<and> dt_sub (from_micro (clock w (Suc (ticks w))) None) p = Inr i))
   \<and> (\<forall>p. isoparse s = Inr p \<and> dt_tzinfo p = None \<longrightarrow>
          (\<forall>created'. fst (compute_inactivity created' (Some s) w)
             = Inr (wall_micro (fst (now (dt_tzinfo created') w)) - wall_micro created',
                    wall_micro (from_micro (clock w (Suc (ticks w))) None) - wall_micro p)))
   \<and> (\<forall>gl wl. list_nat_gateways w = (Inr (Some gl), wl) \<longrightarrow>
          (\<exists>vpc. environ w ''VPC_ID'' = Some vpc
             \<and> gl = map (\<lambda>g. (gw_id g, gw_state g, gw_created g,
                                map_of (gw_tags g) ''LastRequested''))
                      (filter (\<lambda>g. gw_state g \<in> set [''pending'', ''available'']
                                     \<and> gw_vpc g \<in> set [vpc]) (gateways w)))
          \<and> clock wl = clock w \<and> ticks wl = ticks w)
   \<and> (\<forall>gl acc q w'. check_loop gl acc w = (q, w') \<longrightarrow>
          (\<exists>done. length done \<le> length gl
             \<and> (\<forall>k < length done.
                   ch_gatewayId (done ! k) = entry_id (gl ! k)
                   \<and> fst (compute_inactivity (entry_created (gl ! k)) (entry_tag (gl ! k))
                            (w\<lparr>ticks := ticks w + readings (take k gl)\<rparr>))
                       = Inr (ch_age (done ! k), ch_inactive (done ! k)))
             \<and> ((q = Inr (acc @ done) \<and> length done = length gl)
                 \<or> (length done < length gl \<and> (\<exists>e. q = Inl e)))))
   \<and> (\<forall>ev gl wl info w'.
          list_nat_gateways w = (Inr (Some gl), wl)
          \<and> check_gateway_required ev w = (Inr (Some info), w') \<longrightarrow>
          length (nat_changed info) = length gl
          \<and> (\<forall>k < length gl.
                ch_gatewayId (nat_changed info ! k) = entry_id (gl ! k)
                \<and> fst (compute_inactivity (entry_created (gl ! k)) (entry_tag (gl ! k))
                         (wl\<lparr>ticks := ticks wl + readings (take k gl)\<rparr>))
                    = Inr (ch_age (nat_changed info ! k), ch_inactive (nat_changed info ! k))))"
proof -
  have c1: "fst (compute_inactivity created None w)
     = Inr (wall_micro (fst (now (dt_tzinfo created) w)) - wall_micro created,
            wall_micro (fst (now (dt_tzinfo created) w)) - wall_micro created)"
    by (simp add: compute_inactivity_untagged)
  have c2: "\<forall>a i. fst (compute_inactivity created (Some s) w) = Inr (a, i) \<longrightarrow>
          (\<exists>p. isoparse s = Inr p
             \<and> dt_sub (from_micro (clock w (Suc (ticks w))) None) p = Inr i)"
    by (auto simp: compute_inactivity_tagged split: sum.splits)
  have c3: "\<forall>p. isoparse s = Inr p \<and> dt_tzinfo p = None \<longrightarrow>
          (\<forall>created'. fst (compute_inactivity created' (Some s) w)
             = Inr (wall_micro (fst (now (dt_tzinfo created') w)) - wall_micro created',
                    wall_micro (from_micro (clock w (Suc (ticks w))) None) - wall_micro p))"
  proof (intro allI impI)
    fix p created'
    assume p: "isoparse s = Inr p \<and> dt_tzinfo p = None"
    then have "dt_sub (from_micro (clock w (Suc (ticks w))) None) p
               = Inr (wall_micro (from_micro (clock w (Suc (ticks w))) None) - wall_micro p)"
      by (simp add: dt_sub_def)
    then show "fst (compute_inactivity created' (Some s) w)
             = Inr (wall_micro (fst (now (dt_tzinfo created') w)) - wall_micro created',
                    wall_micro (from_micro (clock w (Suc (ticks w))) None) - wall_micro p)"
      using p by (simp add: compute_inactivity_tagged)
  qed
  have c4: "\<forall>gl wl. list_nat_gateways w = (Inr (Some gl), wl) \<longrightarrow>
          (\<exists>vpc. environ w ''VPC_ID'' = Some vpc
             \<and> gl = map (\<lambda>g. (gw_id g, gw_state g, gw_created g,
                                map_of (gw_tags g) ''LastRequested''))
                      (filter (\<lambda>g. gw_state g \<in> set [''pending'', ''available'']
                                     \<and> gw_vpc g \<in> set [vpc]) (gateways w)))
          \<and> clock wl = clock w \<and> ticks wl = ticks w"
  proof (intro allI impI)
    fix gl wl
    assume l: "list_nat_gateways w = (Inr (Some gl), wl)"
    from list_nat_gateways_result[OF l]
    show "(\<exists>vpc. environ w ''VPC_ID'' = Some vpc
             \<and> gl = map (\<lambda>g. (gw_id g, gw_state g, gw_created g,
                                map_of (gw_tags g) ''LastRequested''))
                      (filter (\<lambda>g. gw_state g \<in> set [''pending'', ''available'']
                                     \<and> gw_vpc g \<in> set [vpc]) (gateways w)))
          \<and> clock wl = clock w \<and> ticks wl = ticks w"
      by (auto simp: Let_def split: option.splits if_splits)
  qed
  have c5: "\<forall>gl acc q w'. check_loop gl acc w = (q, w') \<longrightarrow>
          (\<exists>done. length done \<le> length gl
             \<and> (\<forall>k < length done.
                   ch_gatewayId (done ! k) = entry_id (gl ! k)
                   \<and> fst (compute_inactivity (entry_created (gl ! k)) (entry_tag (gl ! k))
                            (w\<lparr>ticks := ticks w + readings (take k gl)\<rparr>))
                       = Inr (ch_age (done ! k), ch_inactive (done ! k)))
             \<and> ((q = Inr (acc @ done) \<and> length done = length gl)
                 \<or> (length done < length gl \<and> (\<exists>e. q = Inl e))))"
  proof (intro allI impI)
    fix gl acc q w'
    assume "check_loop gl acc w = (q, w')"
    from check_loop_run[OF this] obtain "done" where
      "length done \<le> length gl"
      "\<forall>k < length done.
          ch_gatewayId (done ! k) = entry_id (gl ! k)
          \<and> fst (compute_inactivity (entry_created (gl ! k)) (entry_tag (gl ! k))
                   (w\<lparr>ticks := ticks w + readings (take k gl)\<rparr>))
              = Inr (ch_age (done ! k), ch_inactive (done ! k))
          \<and> ch_action (done ! k)
              = (if ch_inactive (done ! k) \<ge> minutes 45 then ''deleted'' else ''skipped'')"
      "(q = Inr (acc @ done) \<and> length done = length gl)
        \<or> (length done < length gl \<and> (\<exists>e. q = Inl e))"
      by blast
    then show "\<exists>done. length done \<le> length gl
             \<and> (\<forall>k < length done.
                   ch_gatewayId (done ! k) = entry_id (gl ! k)
                   \<and> fst (compute_inactivity (entry_created (gl ! k)) (entry_tag (gl ! k))
                            (w\<lparr>ticks := ticks w + readings (take k gl)\<rparr>))
                       = Inr (ch_age (done ! k), ch_inactive (done ! k)))
             \<and> ((q = Inr (acc @ done) \<and> length done = length gl)
                 \<or> (length done < length gl \<and> (\<exists>e. q = Inl e)))"
      by blast
  qed
  have c6: "\<forall>ev gl wl info w'.
          list_nat_gateways w = (Inr (Some gl), wl)
          \<and> check_gateway_required ev w = (Inr (Some info), w') \<longrightarrow>
          length (nat_changed info) = length gl
          \<and> (\<forall>k < length gl.
                ch_gatewayId (nat_changed info ! k) = entry_id (gl ! k)
                \<and> fst (compute_inactivity (entry_created (gl ! k)) (entry_tag (gl ! k))
                         (wl\<lparr>ticks := ticks wl + readings (take k gl)\<rparr>))
                    = Inr (ch_age (nat_changed info ! k), ch_inactive (nat_changed info ! k)))"
  proof (intro allI impI)
    fix ev gl wl info w'
    assume a: "list_nat_gateways w = (Inr (Some gl), wl)
          \<and> check_gateway_required ev w = (Inr (Some info), w')"
    then obtain w2 where loop: "check_loop gl [] wl = (Inr (nat_changed info), w2)"
      using check_flow_report by blast
    from check_loop_run[OF loop] obtain "done" where
      d: "\<forall>k < length done.
          ch_gatewayId (done ! k) = entry_id (gl ! k)
          \<and> fst (compute_inactivity (entry_created (gl ! k)) (entry_tag (gl ! k))
                   (wl\<lparr>ticks := ticks wl + readings (take k gl)\<rparr>))
              = Inr (ch_age (done ! k), ch_inactive (done ! k))
          \<and> ch_action (done ! k)
              = (if ch_inactive (done ! k) \<ge> minutes 45 then ''deleted'' else ''skipped'')"
      and o: "((Inr (nat_changed info) :: error + change list) = Inr ([] @ done) \<and> length done = length gl)
              \<or> (length done < length gl \<and> (\<exists>e. (Inr (nat_changed info) :: error + change list) = Inl e))"
      by blast
    from o have e: "nat_changed info = done" "length done = length gl"
      by auto
    show "length (nat_changed info) = length gl
          \<and> (\<forall>k < length gl.
                ch_gatewayId (nat_changed info ! k) = entry_id (gl ! k)
                \<and> fst (compute_inactivity (entry_created (gl ! k)) (entry_tag (gl ! k))
                         (wl\<lparr>ticks := ticks wl + readings (take k gl)\<rparr>))
                    = Inr (ch_age (nat_changed info ! k), ch_inactive (nat_changed info ! k)))"
      using d e by simp
  qed
  show ?thesis
    by (intro conjI c1 c2 c3 c4 c5 c6)
qed

theorem inactivity_fallback_witness:
  "fst (compute_inactivity (gw_created gw1) None two_gateways) = Inr (minutes 45, minutes 45)
   \<and> isoparse ''2023-12-31 23:15:03''
       = Inr \<lparr>dt_year = 2023, dt_month = 12, dt_day = 31, dt_hour = 23, dt_minute = 15,
              dt_second = 3, dt_microsecond = 0, dt_tzinfo = None\<rparr>
   \<and> fst (compute_inactivity (gw_created gw2) (Some ''2023-12-31 23:15:03'') two_gateways)
       = Inr (minutes 600, minutes 45 - 2000000)
   \<and> fst (compute_inactivity (gw_created gw1) (Some ''2023-12-31 23:15:03'') two_gateways)
       = Inr (minutes 45, minutes 45 - 2000000)
   \<and> list_nat_gateways two_gateways
        = (Inr (Some [(''nat-a'', ''available'', gw_created gw1, None),
                      (''nat-b'', ''pending'', gw_created gw2, Some ''2023-12-31 23:15:03'')]),
           snd (list_nat_gateways two_gateways))
   \<and> fst (compute_inactivity (gw_created gw2) (Some ''2023-12-31 23:15:03'')
            ((snd (list_nat_gateways two_gateways))
               \<lparr>ticks := ticks (snd (list_nat_gateways two_gateways)) + 1\<rparr>))
       = Inr (minutes 600 + 1000000, minutes 45 - 1000000)"
proof -
  let ?s = "''2023-12-31 23:15:03''"
  let ?p = "\<lparr>dt_year = 2023, dt_month = 12, dt_day = 31, dt_hour = 23, dt_minute = 15,
              dt_second = 3, dt_microsecond = 0, dt_tzinfo = None\<rparr>"
  let ?gl = "[(''nat-a'', ''available'', gw_created gw1, None),
              (''nat-b'', ''pending'', gw_created gw2, Some ?s)]"
  let ?info = "\<lparr>nat_changed =
           [\<lparr>ch_action = ''deleted'', ch_gatewayId = ''nat-a'',
              ch_age = minutes 45, ch_inactive = minutes 45\<rparr>,
            \<lparr>ch_action = ''skipped'', ch_gatewayId = ''nat-b'',
              ch_age = minutes 600 + 1000000, ch_inactive = minutes 45 - 1000000\<rparr>]\<rparr>"
  let ?wl = "snd (list_nat_gateways two_gateways)"
  note T = inactivity_fallback[of "gw_created gw1" two_gateways ?s]
  have p: "isoparse ?s = Inr ?p \<and> dt_tzinfo ?p = None"
    by code_simp
  have a1: "wall_micro (fst (now (dt_tzinfo (gw_created gw1)) two_gateways))
              - wall_micro (gw_created gw1) = minutes 45"
    by code_simp
  have a2: "wall_micro (fst (now (dt_tzinfo (gw_created gw2)) two_gateways))
              - wall_micro (gw_created gw2) = minutes 600"
    by code_simp
  have i: "wall_micro (from_micro (clock two_gateways (Suc (ticks two_gateways))) None)
             - wall_micro ?p = minutes 45 - 2000000"
    by code_simp
  have "fst (list_nat_gateways two_gateways) = Inr (Some ?gl)"
    by code_simp
  then have l: "list_nat_gateways two_gateways = (Inr (Some ?gl), ?wl)"
    by (simp add: prod_eq_iff)
  have "fst (check_gateway_required ev0 two_gateways) = Inr (Some ?info)"
    by code_simp
  then have h: "check_gateway_required ev0 two_gateways
                  = (Inr (Some ?info), snd (check_gateway_required ev0 two_gateways))"
    by (simp add: prod_eq_iff)
  note c6 = T[THEN conjunct2, THEN conjunct2, THEN conjunct2, THEN conjunct2, THEN conjunct2,
              rule_format, OF conjI[OF l h], THEN conjunct2, rule_format, of 1]
  have k: "fst (compute_inactivity (gw_created gw2) (Some ?s) (?wl\<lparr>ticks := ticks ?wl + 1\<rparr>))
             = Inr (minutes 600 + 1000000, minutes 45 - 1000000)"
    using c6 by (simp add: entry_id_def entry_created_def entry_tag_def)
  from T p a1 a2 i l k show ?thesis
    by simp
qed

end
